theory Spec2Isabelle
  imports Main
begin

section \<open>Strings and request validation\<close>

text \<open>
  Strings are \<open>char list\<close>: a \<open>char\<close> is a code unit of the JavaScript string in
  the range 0 to 255, so a string with a code unit beyond that range is outside the model.
  The validators of the request layer (\<open>isString\<close>, \<open>notEmpty\<close>, \<open>trim\<close>,
  \<open>matches\<close>) are modelled on string fields that are either absent (\<open>None\<close>,
  JavaScript's \<open>undefined\<close>) or present (\<open>Some s\<close>); a field holding a JSON value
  that is not a string is outside the model.

  Whitespace is what \<open>trim\<close> strips, the class \<open>\s\<close> of JavaScript: in this range
  the tab, the line feed, the vertical tab, the form feed, the carriage return, the space
  and the no-break space U+00A0.
\<close>

definition is_space :: "char \<Rightarrow> bool" where
  "is_space c =
     (c \<in> set [CHR 0x09, CHR 0x0A, CHR 0x0B, CHR 0x0C, CHR 0x0D, CHR 0x20, CHR 0xA0])"

definition trim :: "string \<Rightarrow> string" where
  "trim s = rev (dropWhile is_space (rev (dropWhile is_space s)))"

definition is_digit :: "char \<Rightarrow> bool" where
  "is_digit c = (c \<in> set ''0123456789'')"

text \<open>The pattern \<^verbatim>\<open>/^([0-1]\d|2[0-3]):([0-5]\d)$/\<close> of the slot routes.\<close>

fun matches_time :: "string \<Rightarrow> bool" where
  "matches_time [h1, h2, c, m1, m2] =
     (((h1 \<in> set ''01'' \<and> is_digit h2) \<or> (h1 = CHR ''2'' \<and> h2 \<in> set ''0123''))
      \<and> c = CHR '':'' \<and> m1 \<in> set ''012345'' \<and> is_digit m2)"
| "matches_time _ = False"

text \<open>\<open>x || y\<close> on a string that may be undefined: the empty string is falsy.\<close>

fun or_else :: "string option \<Rightarrow> string \<Rightarrow> string" where
  "or_else None y = y"
| "or_else (Some x) y = (if x = [] then y else x)"

text \<open>\<open>x || null\<close>: what is bound to an optional column.\<close>

fun or_null :: "string option \<Rightarrow> string option" where
  "or_null None = None"
| "or_null (Some x) = (if x = [] then None else Some x)"

text \<open>\<open>str.startsWith(p)\<close>.\<close>

definition startsWith :: "string \<Rightarrow> string \<Rightarrow> bool" where
  "startsWith s p = (take (length p) s = p)"


section \<open>The SQLite store (db.js)\<close>

text \<open>
  The three tables of \<open>db.js\<close>. A \<open>TEXT NOT NULL\<close> column is a \<open>string\<close>, a nullable
  one a \<open>string option\<close>. A table is the list of its rows in insertion order. The field
  names follow the aliases \<open>d\<close>, \<open>s\<close>, \<open>a\<close> of the server's own queries.
\<close>

record doctor_row =
  d_id :: string
  d_name :: string
  d_speciality :: "string option"
  d_room :: "string option"

record slot_row =
  s_id :: string
  s_doctor_id :: string
  s_date :: string
  s_time :: string

record appointment_row =
  a_id :: string
  a_slot_id :: string
  a_patient_name :: string
  a_patient_phone :: "string option"
  a_reason :: "string option"
  a_status :: string
  a_created_at :: string

record store =
  db_doctors :: "doctor_row list"
  db_slots :: "slot_row list"
  db_appointments :: "appointment_row list"

text \<open>The constraint failures the schema can raise, and the \<open>err.code\<close> of each.\<close>

datatype sqlite_error =
    SQLITE_CONSTRAINT_PRIMARYKEY
  | SQLITE_CONSTRAINT_UNIQUE
  | SQLITE_CONSTRAINT_FOREIGNKEY

fun code :: "sqlite_error \<Rightarrow> string" where
  "code SQLITE_CONSTRAINT_PRIMARYKEY = ''SQLITE_CONSTRAINT_PRIMARYKEY''"
| "code SQLITE_CONSTRAINT_UNIQUE = ''SQLITE_CONSTRAINT_UNIQUE''"
| "code SQLITE_CONSTRAINT_FOREIGNKEY = ''SQLITE_CONSTRAINT_FOREIGNKEY''"

text \<open>
  \<open>INSERT\<close> into each table, with \<open>foreign_keys = ON\<close>. The uniqueness checks
  come first and the foreign key is checked when the statement ends. For an appointment
  that violates both \<open>UNIQUE(slot_id)\<close> and the primary key, SQLite reports the
  \<open>UNIQUE\<close> failure. A failed statement leaves the store as it was.
\<close>

definition insert_doctor :: "store \<Rightarrow> doctor_row \<Rightarrow> sqlite_error + store" where
  "insert_doctor db r =
     (if d_id r \<in> set (map d_id (db_doctors db)) then Inl SQLITE_CONSTRAINT_PRIMARYKEY
      else Inr (db\<lparr>db_doctors := db_doctors db @ [r]\<rparr>))"

definition insert_slot :: "store \<Rightarrow> slot_row \<Rightarrow> sqlite_error + store" where
  "insert_slot db r =
     (if s_id r \<in> set (map s_id (db_slots db)) then Inl SQLITE_CONSTRAINT_PRIMARYKEY
      else if s_doctor_id r \<notin> set (map d_id (db_doctors db)) then Inl SQLITE_CONSTRAINT_FOREIGNKEY
      else Inr (db\<lparr>db_slots := db_slots db @ [r]\<rparr>))"

definition insert_appointment :: "store \<Rightarrow> appointment_row \<Rightarrow> sqlite_error + store" where
  "insert_appointment db r =
     (if a_slot_id r \<in> set (map a_slot_id (db_appointments db)) then Inl SQLITE_CONSTRAINT_UNIQUE
      else if a_id r \<in> set (map a_id (db_appointments db)) then Inl SQLITE_CONSTRAINT_PRIMARYKEY
      else if a_slot_id r \<notin> set (map s_id (db_slots db)) then Inl SQLITE_CONSTRAINT_FOREIGNKEY
      else Inr (db\<lparr>db_appointments := db_appointments db @ [r]\<rparr>))"

text \<open>\<open>UPDATE doctors SET name = ?, speciality = ?, room = ? WHERE id = ?\<close>.\<close>

definition update_doctor ::
  "store \<Rightarrow> string \<Rightarrow> string \<Rightarrow> string option \<Rightarrow> string option \<Rightarrow> store" where
  "update_doctor db i name speciality room =
     db\<lparr>db_doctors :=
          map (\<lambda>r. if d_id r = i then r\<lparr>d_name := name, d_speciality := speciality, d_room := room\<rparr>
                   else r) (db_doctors db)\<rparr>"

text \<open>
  \<open>UPDATE slots SET doctor_id = ?, date = ?, time = ? WHERE id = ?\<close>: a row that would
  point at no doctor violates the foreign key.
\<close>

definition update_slot ::
  "store \<Rightarrow> string \<Rightarrow> string \<Rightarrow> string \<Rightarrow> string \<Rightarrow> sqlite_error + store" where
  "update_slot db i doctorId date time =
     (if i \<in> set (map s_id (db_slots db)) \<and> doctorId \<notin> set (map d_id (db_doctors db))
      then Inl SQLITE_CONSTRAINT_FOREIGNKEY
      else Inr (db\<lparr>db_slots :=
                  map (\<lambda>r. if s_id r = i then r\<lparr>s_doctor_id := doctorId, s_date := date, s_time := time\<rparr>
                           else r) (db_slots db)\<rparr>))"

text \<open>
  Deleting slot rows takes the appointments that reference them along
  (\<open>FOREIGN KEY (slot_id) REFERENCES slots(id) ON DELETE CASCADE\<close>).
\<close>

definition delete_slots_where :: "(slot_row \<Rightarrow> bool) \<Rightarrow> store \<Rightarrow> store" where
  "delete_slots_where P db =
     db\<lparr>db_slots := filter (\<lambda>s. \<not> P s) (db_slots db),
        db_appointments :=
          filter (\<lambda>a. a_slot_id a \<notin> set (map s_id (filter P (db_slots db)))) (db_appointments db)\<rparr>"

text \<open>
  \<open>DELETE FROM doctors WHERE id = ?\<close>: a deleted doctor row takes its slots along
  (\<open>FOREIGN KEY (doctor_id) REFERENCES doctors(id) ON DELETE CASCADE\<close>), and they their
  appointments, in the one statement. With no such row nothing is deleted.
\<close>

definition delete_doctor :: "store \<Rightarrow> string \<Rightarrow> store" where
  "delete_doctor db i =
     (if i \<in> set (map d_id (db_doctors db))
      then (delete_slots_where (\<lambda>s. s_doctor_id s = i) db)
             \<lparr>db_doctors := filter (\<lambda>d. d_id d \<noteq> i) (db_doctors db)\<rparr>
      else db)"

definition delete_slot :: "store \<Rightarrow> string \<Rightarrow> store" where
  "delete_slot db i = delete_slots_where (\<lambda>s. s_id s = i) db"

definition delete_appointment :: "store \<Rightarrow> string \<Rightarrow> store" where
  "delete_appointment db i =
     db\<lparr>db_appointments := filter (\<lambda>a. a_id a \<noteq> i) (db_appointments db)\<rparr>"

text \<open>The seeded database of \<open>init\<close>; \<open>today\<close> is \<open>new Date().toISOString().slice(0,10)\<close>.\<close>

definition init :: "string \<Rightarrow> store" where
  "init today =
     \<lparr>db_doctors =
        [\<lparr>d_id = ''D001'', d_name = ''Dr. Asha Mehta'', d_speciality = Some ''General Physician'',
          d_room = Some ''101''\<rparr>,
         \<lparr>d_id = ''D002'', d_name = ''Dr. Rajesh Singh'', d_speciality = Some ''Cardiologist'',
          d_room = Some ''201''\<rparr>],
      db_slots =
        [\<lparr>s_id = ''SL1'', s_doctor_id = ''D001'', s_date = today, s_time = ''09:00''\<rparr>,
         \<lparr>s_id = ''SL2'', s_doctor_id = ''D001'', s_date = today, s_time = ''09:30''\<rparr>,
         \<lparr>s_id = ''SL3'', s_doctor_id = ''D002'', s_date = today, s_time = ''10:00''\<rparr>],
      db_appointments = []\<rparr>"


section \<open>The routes of the server (server.js)\<close>

text \<open>
  A handler takes the store and returns the store after it and the response. The values the
  handler draws from outside (\<open>uuidv4()\<close>, \<open>new Date().toISOString()\<close>) are its
  environment.
\<close>

record env =
  uuid :: string
  now :: string

record doctor_body =
  req_id :: "string option"
  req_name :: "string option"
  req_speciality :: "string option"
  req_room :: "string option"

record slot_body =
  req_doctorId :: "string option"
  req_date :: "string option"
  req_time :: "string option"

record appointment_body =
  req_slotId :: "string option"
  req_patientName :: "string option"
  req_patientPhone :: "string option"
  req_reason :: "string option"

datatype response =
    Validation_errors
  | Error_json nat string
  | Doctor_json nat string string "string option" "string option"
  | Slot_json nat string string string string
  | Appointment_json nat "appointment_row option"
  | No_content
  | Unhandled sqlite_error

text \<open>
  \<open>Validation_errors\<close> is \<open>res.status(400).json({ errors })\<close> of \<open>handleValidation\<close>,
  \<open>Error_json n msg\<close> is \<open>res.status(n).json({ error: msg })\<close>, \<open>No_content\<close> is
  \<open>res.status(204).send()\<close>, and \<open>Unhandled\<close> an exception that leaves the handler.
\<close>

text \<open>\<open>POST /doctors\<close>: \<open>id\<close> and \<open>name\<close> are trimmed and must not be empty.\<close>

definition post_doctors :: "store \<Rightarrow> doctor_body \<Rightarrow> store \<times> response" where
  "post_doctors db b =
     (case (req_id b, req_name b) of
        (Some i, Some n) \<Rightarrow>
          if trim i = [] \<or> trim n = [] then (db, Validation_errors)
          else
            (case insert_doctor db \<lparr>d_id = trim i, d_name = trim n,
                    d_speciality = or_null (req_speciality b), d_room = or_null (req_room b)\<rparr> of
               Inr db' \<Rightarrow> (db', Doctor_json 201 (trim i) (trim n) (req_speciality b) (req_room b))
             | Inl err \<Rightarrow>
                 if code err = ''SQLITE_CONSTRAINT_PRIMARYKEY''
                 then (db, Error_json 409 ''Doctor ID already exists'')
                 else (db, Error_json 500 ''Internal error''))
      | _ \<Rightarrow> (db, Validation_errors))"

text \<open>\<open>PUT /doctors/:id\<close>: every body field is optional; an absent one keeps the row's value.\<close>

definition put_doctors :: "store \<Rightarrow> string \<Rightarrow> doctor_body \<Rightarrow> store \<times> response" where
  "put_doctors db i b =
     (case find (\<lambda>d. d_id d = i) (db_doctors db) of
        None \<Rightarrow> (db, Error_json 404 ''Doctor not found'')
      | Some doc \<Rightarrow>
          let name = (case req_name b of None \<Rightarrow> d_name doc | Some n \<Rightarrow> n);
              speciality = (case req_speciality b of None \<Rightarrow> d_speciality doc | Some x \<Rightarrow> Some x);
              room = (case req_room b of None \<Rightarrow> d_room doc | Some x \<Rightarrow> Some x)
          in (update_doctor db i name speciality room, Doctor_json 200 i name speciality room))"

text \<open>\<open>DELETE /doctors/:id\<close>.\<close>

definition delete_doctors :: "store \<Rightarrow> string \<Rightarrow> store \<times> response" where
  "delete_doctors db i = (delete_doctor db i, No_content)"

text \<open>
  \<open>POST /slots\<close>. The validator \<open>isISO8601\<close> is a parameter of the model; an absent
  \<open>date\<close> or \<open>time\<close> fails validation.
\<close>

definition post_slots :: "(string \<Rightarrow> bool) \<Rightarrow> store \<Rightarrow> env \<Rightarrow> slot_body \<Rightarrow> store \<times> response" where
  "post_slots isISO8601 db e b =
     (case (req_doctorId b, req_date b, req_time b) of
        (Some doctorId, Some date, Some time) \<Rightarrow>
          if doctorId = [] \<or> \<not> isISO8601 date \<or> \<not> matches_time time then (db, Validation_errors)
          else
            (case find (\<lambda>d. d_id d = doctorId) (db_doctors db) of
               None \<Rightarrow> (db, Error_json 400 ''Doctor not found'')
             | Some doc \<Rightarrow>
                 (case insert_slot db \<lparr>s_id = uuid e, s_doctor_id = doctorId, s_date = date,
                         s_time = time\<rparr> of
                    Inr db' \<Rightarrow> (db', Slot_json 201 (uuid e) doctorId date time)
                  | Inl err \<Rightarrow> (db, Error_json 500 ''Internal error'')))
      | _ \<Rightarrow> (db, Validation_errors))"

text \<open>\<open>PUT /slots/:id\<close>: a present \<open>date\<close> or \<open>time\<close> is validated.\<close>

definition valid_slot_patch :: "(string \<Rightarrow> bool) \<Rightarrow> slot_body \<Rightarrow> bool" where
  "valid_slot_patch isISO8601 b =
     ((case req_date b of None \<Rightarrow> True | Some d \<Rightarrow> isISO8601 d)
      \<and> (case req_time b of None \<Rightarrow> True | Some t \<Rightarrow> matches_time t))"

definition put_slots :: "(string \<Rightarrow> bool) \<Rightarrow> store \<Rightarrow> string \<Rightarrow> slot_body \<Rightarrow> store \<times> response" where
  "put_slots isISO8601 db i b =
     (if \<not> valid_slot_patch isISO8601 b then (db, Validation_errors)
      else
        (case find (\<lambda>s. s_id s = i) (db_slots db) of
           None \<Rightarrow> (db, Error_json 404 ''Slot not found'')
         | Some s \<Rightarrow>
             (case find (\<lambda>a. a_slot_id a = i) (db_appointments db) of
                Some appt \<Rightarrow> (db, Error_json 409 ''Cannot edit slot with an existing appointment'')
              | None \<Rightarrow>
                  let doctorId = or_else (req_doctorId b) (s_doctor_id s);
                      date = or_else (req_date b) (s_date s);
                      time = or_else (req_time b) (s_time s)
                  in (case update_slot db i doctorId date time of
                        Inr db' \<Rightarrow> (db', Slot_json 200 i doctorId date time)
                      | Inl err \<Rightarrow> (db, Unhandled err)))))"

text \<open>\<open>DELETE /slots/:id\<close>.\<close>

definition delete_slots :: "store \<Rightarrow> string \<Rightarrow> store \<times> response" where
  "delete_slots db i = (delete_slot db i, No_content)"

text \<open>
  \<open>POST /appointments\<close>, in the three parts of the handler: the validation chain and the
  lookup of the slot (\<open>check_booking\<close>), the values bound to the \<open>INSERT\<close>
  (\<open>new_appointment\<close>), and the transaction inside \<open>try\<close>/\<open>catch\<close> (\<open>try_insert\<close>).
  \<open>slotId\<close> must not be empty; \<open>patientName\<close> is trimmed and must not be empty.
\<close>

definition valid_booking :: "appointment_body \<Rightarrow> bool" where
  "valid_booking b =
     ((case req_slotId b of None \<Rightarrow> False | Some x \<Rightarrow> x \<noteq> [])
      \<and> (case req_patientName b of None \<Rightarrow> False | Some n \<Rightarrow> trim n \<noteq> []))"

definition new_appointment ::
  "env \<Rightarrow> string \<Rightarrow> string \<Rightarrow> string option \<Rightarrow> string option \<Rightarrow> appointment_row" where
  "new_appointment e slotId patientName patientPhone reason =
     \<lparr>a_id = uuid e,
      a_slot_id = slotId,
      a_patient_name = patientName,
      a_patient_phone = or_null patientPhone,
      a_reason = or_null reason,
      a_status = ''Confirmed'',
      a_created_at = now e\<rparr>"

definition check_booking :: "store \<Rightarrow> env \<Rightarrow> appointment_body \<Rightarrow> response + appointment_row" where
  "check_booking db e b =
     (case (req_slotId b, req_patientName b) of
        (Some slotId, Some patientName) \<Rightarrow>
          if slotId = [] \<or> trim patientName = [] then Inl Validation_errors
          else
            (case find (\<lambda>s. s_id s = slotId) (db_slots db) of
               None \<Rightarrow> Inl (Error_json 400 ''Slot not found'')
             | Some slot \<Rightarrow>
                 Inr (new_appointment e slotId (trim patientName) (req_patientPhone b) (req_reason b)))
      | _ \<Rightarrow> Inl Validation_errors)"

definition try_insert :: "store \<Rightarrow> appointment_row \<Rightarrow> store \<times> response" where
  "try_insert db r =
     (case insert_appointment db r of
        Inr db' \<Rightarrow> (db', Appointment_json 201 (find (\<lambda>a. a_id a = a_id r) (db_appointments db')))
      | Inl err \<Rightarrow>
          if startsWith (code err) ''SQLITE_CONSTRAINT''
          then (db, Error_json 409 ''Slot already booked'')
          else (db, Error_json 500 ''Internal error''))"

definition post_appointments :: "store \<Rightarrow> env \<Rightarrow> appointment_body \<Rightarrow> store \<times> response" where
  "post_appointments db e b =
     (case check_booking db e b of
        Inl r \<Rightarrow> (db, r)
      | Inr row \<Rightarrow> try_insert db row)"

text \<open>\<open>DELETE /appointments/:id\<close>.\<close>

definition delete_appointments :: "store \<Rightarrow> string \<Rightarrow> store \<times> response" where
  "delete_appointments db i = (delete_appointment db i, No_content)"

text \<open>
  The routes that write. The \<open>GET\<close> routes only read the store and are left out.
\<close>

datatype request =
    POST_doctors doctor_body
  | PUT_doctors string doctor_body
  | DELETE_doctors string
  | POST_slots slot_body
  | PUT_slots string slot_body
  | DELETE_slots string
  | POST_appointments appointment_body
  | DELETE_appointments string

fun handle :: "(string \<Rightarrow> bool) \<Rightarrow> store \<Rightarrow> env \<Rightarrow> request \<Rightarrow> store \<times> response" where
  "handle V db e (POST_doctors b) = post_doctors db b"
| "handle V db e (PUT_doctors i b) = put_doctors db i b"
| "handle V db e (DELETE_doctors i) = delete_doctors db i"
| "handle V db e (POST_slots b) = post_slots V db e b"
| "handle V db e (PUT_slots i b) = put_slots V db i b"
| "handle V db e (DELETE_slots i) = delete_slots db i"
| "handle V db e (POST_appointments b) = post_appointments db e b"
| "handle V db e (DELETE_appointments i) = delete_appointments db i"

text \<open>
  The stores the server can be in: the seeded database, and whatever a request makes of
  such a store.
\<close>

inductive reachable :: "(string \<Rightarrow> bool) \<Rightarrow> store \<Rightarrow> bool" for V :: "string \<Rightarrow> bool" where
  seeded: "reachable V (init today)"
| served: "reachable V db \<Longrightarrow> reachable V (fst (handle V db e r))"

text \<open>
  The constraints of the schema as a predicate on stores: the three primary keys, the
  \<open>UNIQUE\<close> column \<open>appointments.slot_id\<close>, and the two foreign keys.
\<close>

definition constraints :: "store \<Rightarrow> bool" where
  "constraints db =
     (distinct (map d_id (db_doctors db))
      \<and> distinct (map s_id (db_slots db))
      \<and> distinct (map a_id (db_appointments db))
      \<and> distinct (map a_slot_id (db_appointments db))
      \<and> set (map s_doctor_id (db_slots db)) \<subseteq> set (map d_id (db_doctors db))
      \<and> set (map a_slot_id (db_appointments db)) \<subseteq> set (map s_id (db_slots db)))"

text \<open>
  Booking calls that are in flight together. The handler of \<open>POST /appointments\<close> touches
  the store twice, first the \<open>SELECT\<close> of the slot and then the transaction with the
  \<open>INSERT\<close>; each is one step of a call. A schedule names, step by step, the call that moves
  next, so the steps of the calls interleave in any order. (One server process runs each
  handler to its end, which is the schedule that names every call twice in a row.)
\<close>

datatype progress = Arrived | Checked appointment_row | Replied response

type_synonym call = "env \<times> appointment_body \<times> progress"

fun advance :: "store \<Rightarrow> call \<Rightarrow> store \<times> call" where
  "advance db (e, b, Arrived) =
     (case check_booking db e b of
        Inl r \<Rightarrow> (db, (e, b, Replied r))
      | Inr row \<Rightarrow> (db, (e, b, Checked row)))"
| "advance db (e, b, Checked row) =
     (case try_insert db row of (db', r) \<Rightarrow> (db', (e, b, Replied r)))"
| "advance db (e, b, Replied r) = (db, (e, b, Replied r))"



definition reply_of :: "call \<Rightarrow> response option" where
  "reply_of c = (case snd (snd c) of Replied r \<Rightarrow> Some r | _ \<Rightarrow> None)"




section \<open>The browser demo (app.js)\<close>

text \<open>
  The demo keeps the same three collections as arrays of objects in \<open>state\<close>; all fields
  are strings. The theme setting plays no part and is left out.
\<close>

record demo_doctor =
  dId :: string
  dName :: string
  dSpeciality :: string
  dRoom :: string

record demo_slot =
  sId :: string
  sDoctorId :: string
  sDate :: string
  sTime :: string

record demo_appointment =
  aId :: string
  aSlotId :: string
  aPatientName :: string
  aPatientPhone :: string
  aReason :: string
  aStatus :: string
  aCreatedAt :: string

record demo_state =
  state_doctors :: "demo_doctor list"
  state_slots :: "demo_slot list"
  state_appointments :: "demo_appointment list"

text \<open>\<open>defaultState\<close>; \<open>today\<close> is \<open>todayISO(0)\<close>.\<close>

definition defaultState :: "string \<Rightarrow> demo_state" where
  "defaultState today =
     \<lparr>state_doctors =
        [\<lparr>dId = ''D001'', dName = ''Dr. Asha Mehta'', dSpeciality = ''General Physician'',
          dRoom = ''101''\<rparr>,
         \<lparr>dId = ''D002'', dName = ''Dr. Rajesh Singh'', dSpeciality = ''Cardiologist'',
          dRoom = ''201''\<rparr>],
      state_slots =
        [\<lparr>sId = ''S1'', sDoctorId = ''D001'', sDate = today, sTime = ''09:00''\<rparr>,
         \<lparr>sId = ''S2'', sDoctorId = ''D001'', sDate = today, sTime = ''09:30''\<rparr>,
         \<lparr>sId = ''S3'', sDoctorId = ''D002'', sDate = today, sTime = ''10:00''\<rparr>],
      state_appointments = []\<rparr>"

text \<open>
  What a click draws from outside: the digits of \<open>Math.random().toString(36).slice(2,9)\<close>
  and \<open>new Date().toISOString()\<close>.
\<close>

record demo_env =
  random36 :: string
  clock :: string

definition uid :: "demo_env \<Rightarrow> string \<Rightarrow> string" where
  "uid e prefix = prefix @ random36 e"

definition isSlotBooked :: "demo_state \<Rightarrow> string \<Rightarrow> bool" where
  "isSlotBooked st slotId = list_ex (\<lambda>a. aSlotId a = slotId) (state_appointments st)"

text \<open>
  What a click handler tells the user: the \<open>alert\<close> it raises, a silent return, or the
  \<open>TypeError\<close> of \<open>Object.assign\<close> on \<open>undefined\<close>.
\<close>

datatype outcome =
    Saved
  | Dismissed
  | TypeError
  | Alert_id_and_name_required
  | Alert_doctor_id_exists
  | Alert_slot_fields_required
  | Alert_select_a_slot
  | Alert_enter_patient_name
  | Alert_slot_already_booked
  | Alert_appointment_confirmed

text \<open>
  \<open>Object.assign(xs.find(p), patch)\<close>: the first element that satisfies \<open>p\<close> is
  changed in place; \<open>None\<close> when there is none.
\<close>

fun assign_first :: "('a \<Rightarrow> bool) \<Rightarrow> ('a \<Rightarrow> 'a) \<Rightarrow> 'a list \<Rightarrow> 'a list option" where
  "assign_first p f [] = None"
| "assign_first p f (x # xs) =
     (if p x then Some (f x # xs) else map_option ((#) x) (assign_first p f xs))"

text \<open>
  The Save button of the doctor form. \<open>editing\<close> says whether the form was opened on an
  existing doctor; the other arguments are the values of the four inputs.
\<close>

definition saveDoctor ::
  "demo_state \<Rightarrow> bool \<Rightarrow> string \<Rightarrow> string \<Rightarrow> string \<Rightarrow> string \<Rightarrow> demo_state \<times> outcome" where
  "saveDoctor st editing docId docName docSpec docRoom =
     (let idv = trim docId; name = trim docName; spec = trim docSpec; room = trim docRoom in
      if idv = [] \<or> name = [] then (st, Alert_id_and_name_required)
      else if editing then
        (case assign_first (\<lambda>x. dId x = idv)
                (\<lambda>x. x\<lparr>dName := name, dSpeciality := spec, dRoom := room\<rparr>) (state_doctors st) of
           None \<Rightarrow> (st, TypeError)
         | Some ds \<Rightarrow> (st\<lparr>state_doctors := ds\<rparr>, Saved))
      else if find (\<lambda>x. dId x = idv) (state_doctors st) \<noteq> None then (st, Alert_doctor_id_exists)
      else (st\<lparr>state_doctors := state_doctors st @
                 [\<lparr>dId = idv, dName = name, dSpeciality = spec, dRoom = room\<rparr>]\<rparr>, Saved))"

text \<open>\<open>deleteDoctor\<close>; \<open>confirmed\<close> is the answer to the \<open>confirm\<close> dialog.\<close>

definition deleteDoctor :: "demo_state \<Rightarrow> bool \<Rightarrow> string \<Rightarrow> demo_state" where
  "deleteDoctor st confirmed doctorId =
     (if \<not> confirmed then st
      else
        let remainingSlots = filter (\<lambda>s. sDoctorId s \<noteq> doctorId) (state_slots st);
            remainingAppointments =
              filter (\<lambda>a. find (\<lambda>s. sId s = aSlotId a) remainingSlots \<noteq> None) (state_appointments st)
        in \<lparr>state_doctors = filter (\<lambda>d. dId d \<noteq> doctorId) (state_doctors st),
            state_slots = remainingSlots,
            state_appointments = remainingAppointments\<rparr>)"

text \<open>
  The Save button of the slot form. \<open>data_id\<close> is \<open>data.id\<close>: the id of the slot being
  edited, or \<open>None\<close> for a new slot.
\<close>

definition saveSlot ::
  "demo_state \<Rightarrow> demo_env \<Rightarrow> string option \<Rightarrow> string \<Rightarrow> string \<Rightarrow> string \<Rightarrow> demo_state \<times> outcome" where
  "saveSlot st e data_id doctorId date time =
     (if doctorId = [] \<or> date = [] \<or> time = [] then (st, Alert_slot_fields_required)
      else if or_else data_id [] \<noteq> [] then
        (case assign_first (\<lambda>x. sId x = or_else data_id [])
                (\<lambda>x. x\<lparr>sDoctorId := doctorId, sDate := date, sTime := time\<rparr>) (state_slots st) of
           None \<Rightarrow> (st, TypeError)
         | Some ss \<Rightarrow> (st\<lparr>state_slots := ss\<rparr>, Saved))
      else (st\<lparr>state_slots := state_slots st @
                 [\<lparr>sId = uid e ''SL'', sDoctorId = doctorId, sDate = date, sTime = time\<rparr>]\<rparr>, Saved))"

text \<open>The Confirm Appointment button of the booking form.\<close>

definition confirmAppointment ::
  "demo_state \<Rightarrow> demo_env \<Rightarrow> string \<Rightarrow> string \<Rightarrow> string \<Rightarrow> string \<Rightarrow> demo_state \<times> outcome" where
  "confirmAppointment st e slotId patientName patientPhone reason =
     (if slotId = [] then (st, Alert_select_a_slot)
      else if trim patientName = [] then (st, Alert_enter_patient_name)
      else if isSlotBooked st slotId then (st, Alert_slot_already_booked)
      else (st\<lparr>state_appointments := state_appointments st @
                 [\<lparr>aId = uid e ''AP'', aSlotId = slotId, aPatientName = trim patientName,
                   aPatientPhone = trim patientPhone, aReason = trim reason,
                   aStatus = ''Confirmed'', aCreatedAt = clock e\<rparr>]\<rparr>,
            Alert_appointment_confirmed))"

text \<open>\<open>cancelAppointment\<close>.\<close>

definition cancelAppointment :: "demo_state \<Rightarrow> bool \<Rightarrow> string \<Rightarrow> demo_state" where
  "cancelAppointment st confirmed appointmentId =
     (if \<not> confirmed then st
      else st\<lparr>state_appointments := filter (\<lambda>a. aId a \<noteq> appointmentId) (state_appointments st)\<rparr>)"

text \<open>
  The demo used by one person: a sequence of runs of its five handlers from
  \<open>defaultState\<close>. (\<open>el\<close> binds a handler given as \<open>onClick\<close> to the event named
  \<open>Click\<close>; the model starts where the handler runs.)
\<close>

datatype action =
    Save_doctor bool string string string string
  | Delete_doctor bool string
  | Save_slot "string option" string string string
  | Confirm_appointment string string string string
  | Cancel_appointment bool string

fun click :: "demo_state \<Rightarrow> demo_env \<Rightarrow> action \<Rightarrow> demo_state" where
  "click st e (Save_doctor editing i n sp ro) = fst (saveDoctor st editing i n sp ro)"
| "click st e (Delete_doctor c i) = deleteDoctor st c i"
| "click st e (Save_slot di d da ti) = fst (saveSlot st e di d da ti)"
| "click st e (Confirm_appointment sl n ph re) = fst (confirmAppointment st e sl n ph re)"
| "click st e (Cancel_appointment c i) = cancelAppointment st c i"

inductive demo_reachable :: "demo_state \<Rightarrow> bool" where
  loaded: "demo_reachable (defaultState today)"
| clicked: "demo_reachable st \<Longrightarrow> demo_reachable (click st e c)"


section \<open>The constraints of the schema hold in every store the server reaches\<close>

lemma insert_appointment_Inr:
  "insert_appointment db r = Inr db' \<longleftrightarrow>
     (a_id r \<notin> set (map a_id (db_appointments db))
      \<and> a_slot_id r \<notin> set (map a_slot_id (db_appointments db))
      \<and> a_slot_id r \<in> set (map s_id (db_slots db))
      \<and> db' = db\<lparr>db_appointments := db_appointments db @ [r]\<rparr>)"
  by (auto simp: insert_appointment_def)

lemma constraints_insert_doctor:
  "constraints db \<Longrightarrow> insert_doctor db r = Inr db' \<Longrightarrow> constraints db'"
  unfolding constraints_def insert_doctor_def
  by (auto simp: image_subset_iff split: if_splits)

lemma constraints_insert_slot:
  "constraints db \<Longrightarrow> insert_slot db r = Inr db' \<Longrightarrow> constraints db'"
  unfolding constraints_def insert_slot_def
  by (auto simp: image_subset_iff split: if_splits)

lemma constraints_insert_appointment:
  "constraints db \<Longrightarrow> insert_appointment db r = Inr db' \<Longrightarrow> constraints db'"
  unfolding constraints_def insert_appointment_Inr
  by (auto simp: image_subset_iff)

lemma map_d_id_update:
  "map d_id (map (\<lambda>r. if d_id r = i then r\<lparr>d_name := n, d_speciality := sp, d_room := ro\<rparr> else r) ds)
     = map d_id ds"
  by (induction ds) auto


lemma update_doctor_frame:
  "map d_id (db_doctors (update_doctor db i n sp ro)) = map d_id (db_doctors db)"
  "db_slots (update_doctor db i n sp ro) = db_slots db"
  "db_appointments (update_doctor db i n sp ro) = db_appointments db"
  unfolding update_doctor_def using map_d_id_update[where i=i and n=n and sp=sp and ro=ro and ds="db_doctors db"] by simp_all


lemma constraints_update_doctor:
  "constraints db \<Longrightarrow> constraints (update_doctor db i n sp ro)"
  unfolding constraints_def by (simp only: update_doctor_frame)


lemma map_s_id_update:
  "map s_id (map (\<lambda>r. if s_id r = i then r\<lparr>s_doctor_id := d, s_date := da, s_time := ti\<rparr> else r) ss)
     = map s_id ss"
  by (induction ss) auto


lemma set_s_doctor_id_update:
  "set (map s_doctor_id (map (\<lambda>r. if s_id r = i then r\<lparr>s_doctor_id := d, s_date := da, s_time := ti\<rparr> else r) ss))
     \<subseteq> insert d (set (map s_doctor_id ss))"
  by (induction ss) auto


lemma update_slot_Inr:
  assumes "update_slot db i d da ti = Inr db'"
  shows "map s_id (db_slots db') = map s_id (db_slots db)"
    and "db_doctors db' = db_doctors db"
    and "db_appointments db' = db_appointments db"
    and "set (map s_doctor_id (db_slots db')) \<subseteq> set (map s_doctor_id (db_slots db)) \<union> set (map d_id (db_doctors db))"
proof -
  let ?f = "\<lambda>r. if s_id r = i then r\<lparr>s_doctor_id := d, s_date := da, s_time := ti\<rparr> else r"
  from assms have db': "db' = db\<lparr>db_slots := map ?f (db_slots db)\<rparr>"
    by (simp add: update_slot_def split: if_splits)
  show "map s_id (db_slots db') = map s_id (db_slots db)"
    unfolding db' using map_s_id_update[where i=i and d=d and da=da and ti=ti and ss="db_slots db"] by simp
  show "db_doctors db' = db_doctors db" "db_appointments db' = db_appointments db"
    unfolding db' by simp_all
  show "set (map s_doctor_id (db_slots db')) \<subseteq> set (map s_doctor_id (db_slots db)) \<union> set (map d_id (db_doctors db))"
  proof (cases "i \<in> set (map s_id (db_slots db))")
    case True
    with assms have "d \<in> set (map d_id (db_doctors db))"
      by (auto simp: update_slot_def split: if_splits)
    with set_s_doctor_id_update[where i=i and d=d and da=da and ti=ti and ss="db_slots db"] show ?thesis
      unfolding db' by auto
  next
    case False
    then have "map ?f (db_slots db) = db_slots db"
      by (intro map_idI) auto
    then show ?thesis unfolding db' by simp
  qed
qed


lemma constraints_update_slot:
  assumes "constraints db" and "update_slot db i d da ti = Inr db'"
  shows "constraints db'"
  using assms(1) update_slot_Inr(4)[OF assms(2)]
  unfolding constraints_def update_slot_Inr(1-3)[OF assms(2)]
  by (auto simp: image_subset_iff)


lemma kept_ids:
  "x \<in> set (map f xs) \<Longrightarrow> x \<notin> set (map f (filter P xs))
     \<Longrightarrow> x \<in> set (map f (filter (\<lambda>s. \<not> P s) xs))"
  by (induction xs) auto

lemma constraints_delete_slots_where:
  assumes "constraints db"
  shows "constraints (delete_slots_where P db)"
proof -
  let ?gone = "set (map s_id (filter P (db_slots db)))"
  have "a_slot_id a \<in> set (map s_id (filter (\<lambda>s. \<not> P s) (db_slots db)))"
    if "a \<in> set (db_appointments db)" and "a_slot_id a \<notin> ?gone" for a
  proof -
    from assms that(1) have "a_slot_id a \<in> set (map s_id (db_slots db))"
      unfolding constraints_def by auto
    then show ?thesis using that(2) by (rule kept_ids)
  qed
  then have "set (map a_slot_id (filter (\<lambda>a. a_slot_id a \<notin> ?gone) (db_appointments db)))
          \<subseteq> set (map s_id (filter (\<lambda>s. \<not> P s) (db_slots db)))"
    by auto
  moreover have "set (map s_doctor_id (filter (\<lambda>s. \<not> P s) (db_slots db)))
          \<subseteq> set (map d_id (db_doctors db))"
    using assms unfolding constraints_def by auto
  ultimately show ?thesis
    using assms unfolding constraints_def delete_slots_where_def
    by (simp add: distinct_map_filter)
qed

lemma constraints_delete_doctor:
  assumes "constraints db"
  shows "constraints (delete_doctor db i)"
proof (cases "i \<in> set (map d_id (db_doctors db))")
  case False
  with assms show ?thesis by (simp add: delete_doctor_def)
next
  case True
  let ?db = "delete_slots_where (\<lambda>s. s_doctor_id s = i) db"
  have c: "constraints ?db" by (rule constraints_delete_slots_where[OF assms])
  have "set (map s_doctor_id (db_slots ?db)) \<subseteq> set (map d_id (filter (\<lambda>d. d_id d \<noteq> i) (db_doctors db)))"
    using assms unfolding constraints_def delete_slots_where_def by auto
  with c True show ?thesis
    unfolding constraints_def delete_doctor_def
    by (simp add: distinct_map_filter delete_slots_where_def)
qed


lemma constraints_delete_appointment:
  "constraints db \<Longrightarrow> constraints (delete_appointment db i)"
  unfolding constraints_def delete_appointment_def
  by (auto simp: distinct_map_filter)


lemma constraints_init: "constraints (init today)"
  by (simp add: constraints_def init_def)


lemma constraints_handle:
  assumes "constraints db"
  shows "constraints (fst (handle V db e r))"
proof (cases r)
  case (POST_doctors b)
  then show ?thesis using assms
    by (auto simp: post_doctors_def split: option.splits sum.splits dest: constraints_insert_doctor)
next
  case (PUT_doctors i b)
  then show ?thesis using assms
    by (auto simp: put_doctors_def Let_def split: option.splits intro: constraints_update_doctor)
next
  case (DELETE_doctors i)
  then show ?thesis using assms by (simp add: delete_doctors_def constraints_delete_doctor)
next
  case (POST_slots b)
  then show ?thesis using assms
    by (auto simp: post_slots_def split: option.splits sum.splits dest: constraints_insert_slot)
next
  case (PUT_slots i b)
  then show ?thesis using assms
    by (auto simp: put_slots_def Let_def split: option.splits sum.splits dest: constraints_update_slot)
next
  case (DELETE_slots i)
  then show ?thesis using assms
    by (simp add: delete_slots_def delete_slot_def constraints_delete_slots_where)
next
  case (POST_appointments b)
  then show ?thesis using assms
    by (auto simp: post_appointments_def try_insert_def split: sum.splits dest: constraints_insert_appointment)
next
  case (DELETE_appointments i)
  then show ?thesis using assms by (simp add: delete_appointments_def constraints_delete_appointment)
qed


lemma reachable_constraints: "reachable V db \<Longrightarrow> constraints db"
  by (induction rule: reachable.induct) (simp_all add: constraints_init constraints_handle)

lemma unique_handle:
  assumes "distinct (map a_slot_id (db_appointments db))"
  shows "distinct (map a_slot_id (db_appointments (fst (handle V db e r))))"
proof (cases r)
  case (POST_doctors b)
  then show ?thesis using assms
    by (auto simp: post_doctors_def insert_doctor_def split: option.splits sum.splits if_splits)
next
  case (PUT_doctors i b)
  then show ?thesis using assms
    by (auto simp: put_doctors_def Let_def update_doctor_frame split: option.splits)
next
  case (DELETE_doctors i)
  then show ?thesis using assms
    by (simp add: delete_doctors_def delete_doctor_def delete_slots_where_def distinct_map_filter)
next
  case (POST_slots b)
  then show ?thesis using assms
    by (auto simp: post_slots_def insert_slot_def split: option.splits sum.splits if_splits)
next
  case (PUT_slots i b)
  then show ?thesis using assms
    by (auto simp: put_slots_def Let_def split: option.splits sum.splits dest: update_slot_Inr(3))
next
  case (DELETE_slots i)
  then show ?thesis using assms
    by (simp add: delete_slots_def delete_slot_def delete_slots_where_def distinct_map_filter)
next
  case (POST_appointments b)
  then show ?thesis using assms
    by (auto simp: post_appointments_def try_insert_def insert_appointment_Inr split: sum.splits)
next
  case (DELETE_appointments i)
  then show ?thesis using assms
    by (simp add: delete_appointments_def delete_appointment_def distinct_map_filter)
qed

lemmas route_defs =
  post_doctors_def put_doctors_def delete_doctors_def post_slots_def put_slots_def
  delete_slots_def post_appointments_def delete_appointments_def check_booking_def
  try_insert_def new_appointment_def valid_booking_def valid_slot_patch_def
  insert_doctor_def insert_slot_def insert_appointment_def update_doctor_def update_slot_def
  delete_slots_where_def delete_doctor_def delete_slot_def delete_appointment_def
  init_def trim_def is_space_def is_digit_def startsWith_def


section \<open>At most one appointment for a slot\<close>

text \<open>
  Claim C1. At most one appointment references a slot: the column \<open>slot_id\<close> of the
  appointments has no value twice in any store the server reaches from the seeded database;
  every writing route keeps it so, from any store where it holds; and the store itself
  refuses the \<open>INSERT\<close> of a row whose slot is already referenced, whatever the handler
  did before.
\<close>

theorem no_double_booking:
  "(reachable V db \<longrightarrow> distinct (map a_slot_id (db_appointments db)))
   \<and> (distinct (map a_slot_id (db_appointments db))
        \<longrightarrow> distinct (map a_slot_id (db_appointments (fst (handle V db e r)))))
   \<and> (a_slot_id row \<in> set (map a_slot_id (db_appointments db))
        \<longrightarrow> (\<exists>err. insert_appointment db row = Inl err))"
proof (intro conjI impI)
  assume "reachable V db"
  then have "constraints db" by (rule reachable_constraints)
  then show "distinct (map a_slot_id (db_appointments db))" by (simp add: constraints_def)
next
  assume "distinct (map a_slot_id (db_appointments db))"
  then show "distinct (map a_slot_id (db_appointments (fst (handle V db e r))))"
    by (rule unique_handle)
next
  assume "a_slot_id row \<in> set (map a_slot_id (db_appointments db))"
  then show "\<exists>err. insert_appointment db row = Inl err"
    by (auto simp: insert_appointment_def)
qed


theorem no_double_booking_witness:
  "reachable (\<lambda>d. True)
     (fst (handle (\<lambda>d. True) (init ''2024-01-10'') \<lparr>uuid = ''a1'', now = ''t1''\<rparr>
        (POST_appointments \<lparr>req_slotId = Some ''SL1'', req_patientName = Some ''Alice'',
           req_patientPhone = None, req_reason = None\<rparr>)))
   \<and> a_slot_id \<lparr>a_id = ''a2'', a_slot_id = ''SL1'', a_patient_name = ''Bob'',
         a_patient_phone = None, a_reason = None, a_status = ''Confirmed'', a_created_at = ''t2''\<rparr>
       \<in> set (map a_slot_id (db_appointments
           (fst (handle (\<lambda>d. True) (init ''2024-01-10'') \<lparr>uuid = ''a1'', now = ''t1''\<rparr>
        (POST_appointments \<lparr>req_slotId = Some ''SL1'', req_patientName = Some ''Alice'',
           req_patientPhone = None, req_reason = None\<rparr>)))))
   \<and> distinct (map a_slot_id (db_appointments
        (fst (handle (\<lambda>d. True) (init ''2024-01-10'') \<lparr>uuid = ''a1'', now = ''t1''\<rparr>
        (POST_appointments \<lparr>req_slotId = Some ''SL1'', req_patientName = Some ''Alice'',
           req_patientPhone = None, req_reason = None\<rparr>)))))
   \<and> (\<exists>err. insert_appointment
        (fst (handle (\<lambda>d. True) (init ''2024-01-10'') \<lparr>uuid = ''a1'', now = ''t1''\<rparr>
        (POST_appointments \<lparr>req_slotId = Some ''SL1'', req_patientName = Some ''Alice'',
           req_patientPhone = None, req_reason = None\<rparr>)))
        \<lparr>a_id = ''a2'', a_slot_id = ''SL1'', a_patient_name = ''Bob'',
         a_patient_phone = None, a_reason = None, a_status = ''Confirmed'', a_created_at = ''t2''\<rparr>
        = Inl err)"
proof -
  let ?db = "fst (handle (\<lambda>d. True) (init ''2024-01-10'') \<lparr>uuid = ''a1'', now = ''t1''\<rparr>
        (POST_appointments \<lparr>req_slotId = Some ''SL1'', req_patientName = Some ''Alice'',
           req_patientPhone = None, req_reason = None\<rparr>))"
  let ?row = "\<lparr>a_id = ''a2'', a_slot_id = ''SL1'', a_patient_name = ''Bob'',
         a_patient_phone = None, a_reason = None, a_status = ''Confirmed'', a_created_at = ''t2''\<rparr>"
  have r: "reachable (\<lambda>d. True) ?db"
    by (rule reachable.served, rule reachable.seeded)
  have m: "a_slot_id ?row \<in> set (map a_slot_id (db_appointments ?db))"
    by (simp add: route_defs)
  note t = no_double_booking[of "\<lambda>d. True" ?db "\<lparr>uuid = ''a2'', now = ''t2''\<rparr>"
    "DELETE_slots ''SL2''" ?row]
  have u: "distinct (map a_slot_id (db_appointments ?db))"
    by (rule t[THEN conjunct1, THEN mp, OF r])
  have x: "\<exists>err. insert_appointment ?db ?row = Inl err"
    by (rule t[THEN conjunct2, THEN conjunct2, THEN mp, OF m])
  show ?thesis
    by (intro conjI) (rule r m u x)+
qed

section \<open>Booking\<close>

lemma trim_empty_iff: "trim n = [] \<longleftrightarrow> (\<forall>c\<in>set n. is_space c)"
proof
  assume "trim n = []"
  then have a: "\<forall>c\<in>set (dropWhile is_space n). is_space c"
    by (simp add: trim_def dropWhile_eq_Nil_conv)
  have "dropWhile is_space n = []"
  proof (rule ccontr)
    assume ne: "dropWhile is_space n \<noteq> []"
    then have "\<not> is_space (hd (dropWhile is_space n))" by (rule hd_dropWhile)
    moreover from ne have "hd (dropWhile is_space n) \<in> set (dropWhile is_space n)" by simp
    ultimately show False using a by blast
  qed
  then show "\<forall>c\<in>set n. is_space c" by (simp add: dropWhile_eq_Nil_conv)
next
  assume "\<forall>c\<in>set n. is_space c"
  then show "trim n = []" by (auto simp: trim_def dest: set_dropWhileD)
qed

lemma find_None_ids: "find (\<lambda>x. f x = i) xs = None \<longleftrightarrow> i \<notin> set (map f xs)"
  by (auto simp: find_None_iff)

lemma find_Some_ids: "i \<in> set (map f xs) \<Longrightarrow> \<exists>y. find (\<lambda>x. f x = i) xs = Some y"
  by (cases "find (\<lambda>x. f x = i) xs") (auto simp: find_None_ids)

lemma find_appended_fresh:
  "f r \<notin> set (map f xs) \<Longrightarrow> find (\<lambda>x. f x = f r) (xs @ [r]) = Some r"
  by (induction xs) auto

lemma startsWith_code: "startsWith (code err) ''SQLITE_CONSTRAINT''"
  by (cases err) (simp_all add: startsWith_def)

lemma try_insert_rejected:
  "insert_appointment db row = Inl err \<Longrightarrow> try_insert db row = (db, Error_json 409 ''Slot already booked'')"
  by (simp add: try_insert_def startsWith_code)

lemma try_insert_accepted:
  assumes "a_id row \<notin> set (map a_id (db_appointments db))"
    and "a_slot_id row \<notin> set (map a_slot_id (db_appointments db))"
    and "a_slot_id row \<in> set (map s_id (db_slots db))"
  shows "try_insert db row
          = (db\<lparr>db_appointments := db_appointments db @ [row]\<rparr>, Appointment_json 201 (Some row))"
proof -
  have "insert_appointment db row = Inr (db\<lparr>db_appointments := db_appointments db @ [row]\<rparr>)"
    using assms by (simp add: insert_appointment_Inr)
  then show ?thesis
    using find_appended_fresh[of a_id row "db_appointments db"] assms(1)
    by (simp add: try_insert_def)
qed

lemma check_booking_invalid:
  "\<not> valid_booking b \<Longrightarrow> check_booking db e b = Inl Validation_errors"
  by (auto simp: valid_booking_def check_booking_def split: option.splits)

lemma check_booking_valid:
  assumes "valid_booking b"
  obtains sid n where "req_slotId b = Some sid" "req_patientName b = Some n" "sid \<noteq> []" "trim n \<noteq> []"
  using assms by (auto simp: valid_booking_def split: option.splits)

lemma check_booking_no_slot:
  assumes "valid_booking b" "req_slotId b = Some sid" "sid \<notin> set (map s_id (db_slots db))"
  shows "check_booking db e b = Inl (Error_json 400 ''Slot not found'')"
proof -
  from assms(3) have "find (\<lambda>s. s_id s = sid) (db_slots db) = None" by (simp add: find_None_ids)
  with assms(1,2) show ?thesis
    by (auto simp: valid_booking_def check_booking_def split: option.splits)
qed

lemma check_booking_passed:
  assumes "valid_booking b" "req_slotId b = Some sid" "req_patientName b = Some n"
    "sid \<in> set (map s_id (db_slots db))"
  shows "check_booking db e b
          = Inr (new_appointment e sid (trim n) (req_patientPhone b) (req_reason b))"
proof -
  from find_Some_ids[OF assms(4)] obtain y where "find (\<lambda>s. s_id s = sid) (db_slots db) = Some y" ..
  with assms(1-3) show ?thesis
    by (auto simp: valid_booking_def check_booking_def split: option.splits)
qed

text \<open>
  Claim C3, as the handler orders it. Validation comes first: a booking whose \<open>slotId\<close>
  is absent or empty, or whose \<open>patientName\<close> is absent, empty or only whitespace, is
  answered with the validation errors (status 400), whether or not the slot exists. A valid
  booking of a slot that does not exist is answered \<open>400 Slot not found\<close>. A valid
  booking of an existing slot that already has an appointment, or for which the generated id
  is already the id of an appointment, is answered \<open>409 Slot already booked\<close>. In these
  cases the store is unchanged. Otherwise the appointment is appended to the table and
  returned with status 201: its id is the generated one, its status \<open>Confirmed\<close>, its
  creation time the handler's clock, and its patient name the trimmed name.
\<close>

theorem book_outcomes:
  "(\<not> valid_booking b \<longrightarrow> post_appointments db e b = (db, Validation_errors))
   \<and> (req_patientName b = Some n \<and> (\<forall>c\<in>set n. is_space c) \<longrightarrow> \<not> valid_booking b)
   \<and> (valid_booking b \<and> req_slotId b = Some sid \<and> sid \<notin> set (map s_id (db_slots db))
        \<longrightarrow> post_appointments db e b = (db, Error_json 400 ''Slot not found''))
   \<and> (valid_booking b \<and> req_slotId b = Some sid \<and> sid \<in> set (map s_id (db_slots db))
        \<and> (sid \<in> set (map a_slot_id (db_appointments db))
             \<or> uuid e \<in> set (map a_id (db_appointments db)))
        \<longrightarrow> post_appointments db e b = (db, Error_json 409 ''Slot already booked''))
   \<and> (valid_booking b \<and> req_slotId b = Some sid \<and> req_patientName b = Some n
        \<and> sid \<in> set (map s_id (db_slots db))
        \<and> sid \<notin> set (map a_slot_id (db_appointments db))
        \<and> uuid e \<notin> set (map a_id (db_appointments db))
        \<longrightarrow> post_appointments db e b
             = (db\<lparr>db_appointments := db_appointments db @
                    [\<lparr>a_id = uuid e, a_slot_id = sid, a_patient_name = trim n,
                      a_patient_phone = or_null (req_patientPhone b),
                      a_reason = or_null (req_reason b),
                      a_status = ''Confirmed'', a_created_at = now e\<rparr>]\<rparr>,
                Appointment_json 201
                  (Some \<lparr>a_id = uuid e, a_slot_id = sid, a_patient_name = trim n,
                      a_patient_phone = or_null (req_patientPhone b),
                      a_reason = or_null (req_reason b),
                      a_status = ''Confirmed'', a_created_at = now e\<rparr>)))"
proof (intro conjI impI)
  assume "\<not> valid_booking b"
  then show "post_appointments db e b = (db, Validation_errors)"
    by (simp add: post_appointments_def check_booking_invalid)
next
  assume "req_patientName b = Some n \<and> (\<forall>c\<in>set n. is_space c)"
  then show "\<not> valid_booking b"
    by (simp add: valid_booking_def trim_empty_iff split: option.splits)
next
  assume "valid_booking b \<and> req_slotId b = Some sid \<and> sid \<notin> set (map s_id (db_slots db))"
  then show "post_appointments db e b = (db, Error_json 400 ''Slot not found'')"
    by (simp add: post_appointments_def check_booking_no_slot)
next
  assume a: "valid_booking b \<and> req_slotId b = Some sid \<and> sid \<in> set (map s_id (db_slots db))
        \<and> (sid \<in> set (map a_slot_id (db_appointments db))
             \<or> uuid e \<in> set (map a_id (db_appointments db)))"
  then obtain n' where n': "req_patientName b = Some n'"
    by (auto elim: check_booking_valid)
  let ?row = "new_appointment e sid (trim n') (req_patientPhone b) (req_reason b)"
  from a n' have c: "check_booking db e b = Inr ?row"
    by (simp add: check_booking_passed)
  from a have "\<exists>err. insert_appointment db ?row = Inl err"
    by (auto simp: insert_appointment_def new_appointment_def)
  then obtain err where "insert_appointment db ?row = Inl err" ..
  then have "try_insert db ?row = (db, Error_json 409 ''Slot already booked'')"
    by (rule try_insert_rejected)
  with c show "post_appointments db e b = (db, Error_json 409 ''Slot already booked'')"
    by (simp add: post_appointments_def)
next
  assume a: "valid_booking b \<and> req_slotId b = Some sid \<and> req_patientName b = Some n
        \<and> sid \<in> set (map s_id (db_slots db))
        \<and> sid \<notin> set (map a_slot_id (db_appointments db))
        \<and> uuid e \<notin> set (map a_id (db_appointments db))"
  let ?row = "new_appointment e sid (trim n) (req_patientPhone b) (req_reason b)"
  from a have c: "check_booking db e b = Inr ?row"
    by (simp add: check_booking_passed)
  have "try_insert db ?row
          = (db\<lparr>db_appointments := db_appointments db @ [?row]\<rparr>, Appointment_json 201 (Some ?row))"
    using a by (intro try_insert_accepted) (simp_all add: new_appointment_def)
  with c show "post_appointments db e b
             = (db\<lparr>db_appointments := db_appointments db @
                    [\<lparr>a_id = uuid e, a_slot_id = sid, a_patient_name = trim n,
                      a_patient_phone = or_null (req_patientPhone b),
                      a_reason = or_null (req_reason b),
                      a_status = ''Confirmed'', a_created_at = now e\<rparr>]\<rparr>,
                Appointment_json 201
                  (Some \<lparr>a_id = uuid e, a_slot_id = sid, a_patient_name = trim n,
                      a_patient_phone = or_null (req_patientPhone b),
                      a_reason = or_null (req_reason b),
                      a_status = ''Confirmed'', a_created_at = now e\<rparr>))"
    by (simp add: post_appointments_def new_appointment_def)
qed

theorem book_outcomes_witness:
  "post_appointments (init ''2024-01-10'') \<lparr>uuid = ''a1'', now = ''t1''\<rparr>
      \<lparr>req_slotId = Some ''SL1'', req_patientName = Some [CHR 0xA0, CHR 0x20], req_patientPhone = None,
        req_reason = None\<rparr>
     = (init ''2024-01-10'', Validation_errors)
   \<and> post_appointments (init ''2024-01-10'') \<lparr>uuid = ''a1'', now = ''t1''\<rparr>
      \<lparr>req_slotId = Some ''S404'', req_patientName = Some ''Alice'', req_patientPhone = None,
        req_reason = None\<rparr>
     = (init ''2024-01-10'', Error_json 400 ''Slot not found'')
   \<and> post_appointments
      ((init ''2024-01-10'')\<lparr>db_appointments :=
          [\<lparr>a_id = ''a1'', a_slot_id = ''SL1'', a_patient_name = ''Alice'', a_patient_phone = None,
            a_reason = None, a_status = ''Confirmed'', a_created_at = ''t1''\<rparr>]\<rparr>)
      \<lparr>uuid = ''a2'', now = ''t2''\<rparr>
      \<lparr>req_slotId = Some ''SL1'', req_patientName = Some ''Bob'', req_patientPhone = None,
        req_reason = None\<rparr>
     = ((init ''2024-01-10'')\<lparr>db_appointments :=
          [\<lparr>a_id = ''a1'', a_slot_id = ''SL1'', a_patient_name = ''Alice'', a_patient_phone = None,
            a_reason = None, a_status = ''Confirmed'', a_created_at = ''t1''\<rparr>]\<rparr>,
        Error_json 409 ''Slot already booked'')
   \<and> post_appointments (init ''2024-01-10'') \<lparr>uuid = ''a1'', now = ''t1''\<rparr>
      \<lparr>req_slotId = Some ''SL1'', req_patientName = Some '' Alice '', req_patientPhone = Some '''',
        req_reason = Some ''flu''\<rparr>
     = ((init ''2024-01-10'')\<lparr>db_appointments :=
          [\<lparr>a_id = ''a1'', a_slot_id = ''SL1'', a_patient_name = ''Alice'', a_patient_phone = None,
            a_reason = Some ''flu'', a_status = ''Confirmed'', a_created_at = ''t1''\<rparr>]\<rparr>,
        Appointment_json 201
          (Some \<lparr>a_id = ''a1'', a_slot_id = ''SL1'', a_patient_name = ''Alice'',
             a_patient_phone = None, a_reason = Some ''flu'', a_status = ''Confirmed'',
             a_created_at = ''t1''\<rparr>))"
proof -
  let ?db = "init ''2024-01-10''"
  let ?db1 = "?db\<lparr>db_appointments :=
          [\<lparr>a_id = ''a1'', a_slot_id = ''SL1'', a_patient_name = ''Alice'', a_patient_phone = None,
            a_reason = None, a_status = ''Confirmed'', a_created_at = ''t1''\<rparr>]\<rparr>"
  let ?e = "\<lparr>uuid = ''a1'', now = ''t1''\<rparr>"
  have 1: "post_appointments ?db ?e
      \<lparr>req_slotId = Some ''SL1'', req_patientName = Some [CHR 0xA0, CHR 0x20], req_patientPhone = None,
        req_reason = None\<rparr> = (?db, Validation_errors)"
    using book_outcomes[of "\<lparr>req_slotId = Some ''SL1'', req_patientName = Some [CHR 0xA0, CHR 0x20],
        req_patientPhone = None, req_reason = None\<rparr>" ?db ?e "[CHR 0xA0, CHR 0x20]" "''SL1''"]
    by (simp add: is_space_def)
  have 2: "post_appointments ?db ?e
      \<lparr>req_slotId = Some ''S404'', req_patientName = Some ''Alice'', req_patientPhone = None,
        req_reason = None\<rparr> = (?db, Error_json 400 ''Slot not found'')"
    using book_outcomes[of "\<lparr>req_slotId = Some ''S404'', req_patientName = Some ''Alice'',
        req_patientPhone = None, req_reason = None\<rparr>" ?db ?e "''Alice''" "''S404''"]
    by (simp add: valid_booking_def trim_def is_space_def init_def)
  have 3: "post_appointments ?db1 \<lparr>uuid = ''a2'', now = ''t2''\<rparr>
      \<lparr>req_slotId = Some ''SL1'', req_patientName = Some ''Bob'', req_patientPhone = None,
        req_reason = None\<rparr> = (?db1, Error_json 409 ''Slot already booked'')"
    using book_outcomes[of "\<lparr>req_slotId = Some ''SL1'', req_patientName = Some ''Bob'',
        req_patientPhone = None, req_reason = None\<rparr>" ?db1 "\<lparr>uuid = ''a2'', now = ''t2''\<rparr>"
        "''Bob''" "''SL1''"]
    by (simp add: valid_booking_def trim_def is_space_def init_def)
  have 4: "post_appointments ?db ?e
      \<lparr>req_slotId = Some ''SL1'', req_patientName = Some '' Alice '', req_patientPhone = Some '''',
        req_reason = Some ''flu''\<rparr>
     = (?db\<lparr>db_appointments :=
          [\<lparr>a_id = ''a1'', a_slot_id = ''SL1'', a_patient_name = ''Alice'', a_patient_phone = None,
            a_reason = Some ''flu'', a_status = ''Confirmed'', a_created_at = ''t1''\<rparr>]\<rparr>,
        Appointment_json 201
          (Some \<lparr>a_id = ''a1'', a_slot_id = ''SL1'', a_patient_name = ''Alice'',
             a_patient_phone = None, a_reason = Some ''flu'', a_status = ''Confirmed'',
             a_created_at = ''t1''\<rparr>))"
    using book_outcomes[of "\<lparr>req_slotId = Some ''SL1'', req_patientName = Some '' Alice '',
        req_patientPhone = Some '''', req_reason = Some ''flu''\<rparr>" ?db ?e "'' Alice ''" "''SL1''"]
    by (simp add: valid_booking_def trim_def is_space_def init_def)
  from 1 2 3 4 show ?thesis by (intro conjI)
qed

text \<open>
  The claim as written puts the lookup of the slot before the validation. The handler does
  the opposite: with no slot of the given id in the store, an empty \<open>slotId\<close> and an empty
  \<open>patientName\<close> are both answered with the validation errors, not with
  \<open>Slot not found\<close>.
\<close>

theorem book_order_counterexample:
  "'''' \<notin> set (map s_id (db_slots (init ''2024-01-10'')))
   \<and> post_appointments (init ''2024-01-10'') \<lparr>uuid = ''a1'', now = ''t1''\<rparr>
      \<lparr>req_slotId = Some '''', req_patientName = Some ''Alice'', req_patientPhone = None,
        req_reason = None\<rparr>
     = (init ''2024-01-10'', Validation_errors)
   \<and> ''S404'' \<notin> set (map s_id (db_slots (init ''2024-01-10'')))
   \<and> post_appointments (init ''2024-01-10'') \<lparr>uuid = ''a1'', now = ''t1''\<rparr>
      \<lparr>req_slotId = Some ''S404'', req_patientName = Some '''', req_patientPhone = None,
        req_reason = None\<rparr>
     = (init ''2024-01-10'', Validation_errors)"
  by (simp add: post_appointments_def check_booking_def init_def trim_def)

section \<open>Constraint failures of the insert\<close>

lemma delete_slot_gone: "i \<notin> set (map s_id (db_slots (delete_slot db i)))"
  by (auto simp: delete_slot_def delete_slots_where_def)

lemma delete_slot_appointments:
  "set (map a_id (db_appointments (delete_slot db i))) \<subseteq> set (map a_id (db_appointments db))"
  by (auto simp: delete_slot_def delete_slots_where_def)

lemma delete_slot_unbooked:
  "i \<in> set (map s_id (db_slots db)) \<Longrightarrow> i \<notin> set (map a_slot_id (db_appointments (delete_slot db i)))"
  by (auto simp: delete_slot_def delete_slots_where_def image_iff)

lemma check_booking_Inr:
  assumes "check_booking db e b = Inr row"
  shows "a_slot_id row \<in> set (map s_id (db_slots db))" and "a_id row = uuid e"
    and "valid_booking b" and "req_slotId b = Some (a_slot_id row)"
proof -
  from assms obtain sid n where b: "req_slotId b = Some sid" "req_patientName b = Some n"
    by (auto simp: check_booking_def split: option.splits)
  from assms b have v: "sid \<noteq> []" "trim n \<noteq> []"
    by (auto simp: check_booking_def split: if_splits)
  from assms b v obtain y where f: "find (\<lambda>s. s_id s = sid) (db_slots db) = Some y"
    by (auto simp: check_booking_def split: option.splits)
  from assms b v f have row: "row = new_appointment e sid (trim n) (req_patientPhone b) (req_reason b)"
    by (simp add: check_booking_def)
  from f have "sid \<in> set (map s_id (db_slots db))"
    using find_None_ids[of s_id sid "db_slots db"] by auto
  then show "a_slot_id row \<in> set (map s_id (db_slots db))" by (simp add: row new_appointment_def)
  show "a_id row = uuid e" by (simp add: row new_appointment_def)
  show "valid_booking b" using b v by (simp add: valid_booking_def)
  show "req_slotId b = Some (a_slot_id row)" using b by (simp add: row new_appointment_def)
qed

text \<open>
  Claim C10. Whatever constraint the \<open>INSERT\<close> of the appointment violates, the handler
  answers \<open>409 Slot already booked\<close> and the store stays as it was, because every code of
  a constraint failure starts with \<open>SQLITE_CONSTRAINT\<close>. In particular, when the slot
  passed the handler's lookup in the store \<open>db0\<close> and is deleted before the insert runs,
  the insert fails on the foreign key and the answer is still 409, not a not-found answer.
\<close>

theorem constraint_failure_is_conflict:
  "(insert_appointment db row = Inl err
      \<longrightarrow> try_insert db row = (db, Error_json 409 ''Slot already booked''))
   \<and> (check_booking db0 e b = Inr row \<and> a_id row \<notin> set (map a_id (db_appointments db0))
      \<longrightarrow> insert_appointment (fst (delete_slots db0 (a_slot_id row))) row
            = Inl SQLITE_CONSTRAINT_FOREIGNKEY
        \<and> try_insert (fst (delete_slots db0 (a_slot_id row))) row
            = (fst (delete_slots db0 (a_slot_id row)), Error_json 409 ''Slot already booked''))"
proof (intro conjI impI)
  assume "insert_appointment db row = Inl err"
  then show "try_insert db row = (db, Error_json 409 ''Slot already booked'')"
    by (rule try_insert_rejected)
next
  assume a: "check_booking db0 e b = Inr row \<and> a_id row \<notin> set (map a_id (db_appointments db0))"
  let ?db = "fst (delete_slots db0 (a_slot_id row))"
  have db: "?db = delete_slot db0 (a_slot_id row)" by (simp add: delete_slots_def)
  from a have "check_booking db0 e b = Inr row" ..
  then have s: "a_slot_id row \<in> set (map s_id (db_slots db0))"
    by (rule check_booking_Inr(1))
  from a delete_slot_appointments[of db0 "a_slot_id row"]
  have "a_id row \<notin> set (map a_id (db_appointments ?db))" unfolding db by auto
  then show fk: "insert_appointment ?db row = Inl SQLITE_CONSTRAINT_FOREIGNKEY"
    unfolding db insert_appointment_def
    using delete_slot_gone[of "a_slot_id row" db0] delete_slot_unbooked[OF s]
    by simp
  show "try_insert ?db row = (?db, Error_json 409 ''Slot already booked'')"
    by (rule try_insert_rejected[OF fk])
qed

theorem constraint_failure_is_conflict_witness:
  "check_booking (init ''2024-01-10'') \<lparr>uuid = ''a1'', now = ''t1''\<rparr>
      \<lparr>req_slotId = Some ''SL1'', req_patientName = Some ''Alice'', req_patientPhone = None,
        req_reason = None\<rparr>
     = Inr \<lparr>a_id = ''a1'', a_slot_id = ''SL1'', a_patient_name = ''Alice'', a_patient_phone = None,
            a_reason = None, a_status = ''Confirmed'', a_created_at = ''t1''\<rparr>
   \<and> insert_appointment (fst (delete_slots (init ''2024-01-10'') ''SL1''))
        \<lparr>a_id = ''a1'', a_slot_id = ''SL1'', a_patient_name = ''Alice'', a_patient_phone = None,
            a_reason = None, a_status = ''Confirmed'', a_created_at = ''t1''\<rparr>
     = Inl SQLITE_CONSTRAINT_FOREIGNKEY
   \<and> try_insert (fst (delete_slots (init ''2024-01-10'') ''SL1''))
        \<lparr>a_id = ''a1'', a_slot_id = ''SL1'', a_patient_name = ''Alice'', a_patient_phone = None,
            a_reason = None, a_status = ''Confirmed'', a_created_at = ''t1''\<rparr>
     = (fst (delete_slots (init ''2024-01-10'') ''SL1''), Error_json 409 ''Slot already booked'')"
proof -
  let ?row = "\<lparr>a_id = ''a1'', a_slot_id = ''SL1'', a_patient_name = ''Alice'', a_patient_phone = None,
            a_reason = None, a_status = ''Confirmed'', a_created_at = ''t1''\<rparr>"
  let ?b = "\<lparr>req_slotId = Some ''SL1'', req_patientName = Some ''Alice'', req_patientPhone = None,
        req_reason = None\<rparr>"
  let ?e = "\<lparr>uuid = ''a1'', now = ''t1''\<rparr>"
  have c: "check_booking (init ''2024-01-10'') ?e ?b = Inr ?row"
    by (simp add: check_booking_def new_appointment_def init_def trim_def is_space_def)
  have f: "a_id ?row \<notin> set (map a_id (db_appointments (init ''2024-01-10'')))"
    by (simp add: init_def)
  note t = constraint_failure_is_conflict[of "fst (delete_slots (init ''2024-01-10'') ''SL1'')" ?row
      SQLITE_CONSTRAINT_FOREIGNKEY "init ''2024-01-10''" ?e ?b]
  from t c f have "insert_appointment (fst (delete_slots (init ''2024-01-10'') (a_slot_id ?row))) ?row
            = Inl SQLITE_CONSTRAINT_FOREIGNKEY
        \<and> try_insert (fst (delete_slots (init ''2024-01-10'') (a_slot_id ?row))) ?row
            = (fst (delete_slots (init ''2024-01-10'') (a_slot_id ?row)), Error_json 409 ''Slot already booked'')"
    by (simp only: simp_thms)
  with c show ?thesis by simp
qed

section \<open>Deleting what is not there\<close>

lemma filter_other_ids: "i \<notin> set (map f xs) \<Longrightarrow> filter (\<lambda>x. f x \<noteq> i) xs = xs"
  by (induction xs) auto

lemma filter_same_id_empty: "i \<notin> set (map f xs) \<Longrightarrow> filter (\<lambda>x. f x = i) xs = []"
  by (induction xs) auto

text \<open>
  Claim C7, as the handlers are written. None of the three \<open>DELETE\<close> routes looks the row
  up: for an id that names no doctor, no slot or no appointment the statement deletes
  nothing, the store is unchanged and the answer is \<open>204 No Content\<close>, the same answer as
  for a row that was there.
\<close>

theorem delete_missing_is_no_content:
  "(i \<notin> set (map d_id (db_doctors db)) \<longrightarrow> delete_doctors db i = (db, No_content))
   \<and> (i \<notin> set (map s_id (db_slots db)) \<longrightarrow> delete_slots db i = (db, No_content))
   \<and> (i \<notin> set (map a_id (db_appointments db)) \<longrightarrow> delete_appointments db i = (db, No_content))"
proof (intro conjI impI)
  assume "i \<notin> set (map d_id (db_doctors db))"
  then show "delete_doctors db i = (db, No_content)"
    by (simp add: delete_doctors_def delete_doctor_def)
next
  assume "i \<notin> set (map s_id (db_slots db))"
  then have "filter (\<lambda>s. s_id s \<noteq> i) (db_slots db) = db_slots db"
    and "filter (\<lambda>s. s_id s = i) (db_slots db) = []"
    by (rule filter_other_ids, rule filter_same_id_empty)
  then show "delete_slots db i = (db, No_content)"
    by (simp add: delete_slots_def delete_slot_def delete_slots_where_def)
next
  assume "i \<notin> set (map a_id (db_appointments db))"
  then have "filter (\<lambda>a. a_id a \<noteq> i) (db_appointments db) = db_appointments db"
    by (rule filter_other_ids)
  then show "delete_appointments db i = (db, No_content)"
    by (simp add: delete_appointments_def delete_appointment_def)
qed

theorem delete_missing_is_no_content_witness:
  "delete_doctors (init ''2024-01-10'') ''D999'' = (init ''2024-01-10'', No_content)
   \<and> delete_slots (init ''2024-01-10'') ''S404'' = (init ''2024-01-10'', No_content)
   \<and> delete_appointments (init ''2024-01-10'') ''A404'' = (init ''2024-01-10'', No_content)"
proof -
  have d: "''D999'' \<notin> set (map d_id (db_doctors (init ''2024-01-10'')))"
    and s: "''S404'' \<notin> set (map s_id (db_slots (init ''2024-01-10'')))"
    and a: "''A404'' \<notin> set (map a_id (db_appointments (init ''2024-01-10'')))"
    by (simp_all add: init_def)
  show ?thesis
    using delete_missing_is_no_content[of "''D999''" "init ''2024-01-10''", THEN conjunct1, THEN mp, OF d]
      delete_missing_is_no_content[of "''S404''" "init ''2024-01-10''", THEN conjunct2, THEN conjunct1, THEN mp, OF s]
      delete_missing_is_no_content[of "''A404''" "init ''2024-01-10''", THEN conjunct2, THEN conjunct2, THEN mp, OF a]
    by (intro conjI)
qed

text \<open>
  The claim as written asks for a not-found failure. In the seeded store no doctor has the
  id \<open>D999\<close>, no slot the id \<open>S404\<close> and no appointment the id \<open>A404\<close>, and each
  delete is answered \<open>204 No Content\<close>.
\<close>

theorem delete_missing_counterexample:
  "''D999'' \<notin> set (map d_id (db_doctors (init ''2024-01-10'')))
   \<and> snd (delete_doctors (init ''2024-01-10'') ''D999'') = No_content
   \<and> ''S404'' \<notin> set (map s_id (db_slots (init ''2024-01-10'')))
   \<and> snd (delete_slots (init ''2024-01-10'') ''S404'') = No_content
   \<and> ''A404'' \<notin> set (map a_id (db_appointments (init ''2024-01-10'')))
   \<and> snd (delete_appointments (init ''2024-01-10'') ''A404'') = No_content"
  by (simp add: delete_doctors_def delete_slots_def delete_appointments_def init_def)

section \<open>Editing a slot that is booked\<close>

text \<open>
  Claim C5. For every slot that has an appointment, \<open>PUT /slots/:id\<close> is answered
  \<open>409 Cannot edit slot with an existing appointment\<close> and the store, the slot with it,
  is left as it was, for every patch that the validators of the route let through, whichever
  of \<open>doctorId\<close>, \<open>date\<close> and \<open>time\<close> it contains. (A patch whose \<open>date\<close> or
  \<open>time\<close> is not one is stopped by the validation layer before the handler looks at the
  store; the store is unchanged then as well.)
\<close>

theorem booked_slot_not_editable:
  assumes "i \<in> set (map s_id (db_slots db))"
    and "i \<in> set (map a_slot_id (db_appointments db))"
  shows "put_slots V db i b =
           (db, if valid_slot_patch V b
                then Error_json 409 ''Cannot edit slot with an existing appointment''
                else Validation_errors)"
proof -
  from find_Some_ids[OF assms(1)] obtain s where "find (\<lambda>s. s_id s = i) (db_slots db) = Some s" ..
  moreover from find_Some_ids[OF assms(2)]
  obtain a where "find (\<lambda>a. a_slot_id a = i) (db_appointments db) = Some a" ..
  ultimately show ?thesis by (simp add: put_slots_def)
qed

theorem booked_slot_not_editable_witness:
  "put_slots (\<lambda>d. d = ''2024-02-01'')
      ((init ''2024-01-10'')\<lparr>db_appointments :=
          [\<lparr>a_id = ''a1'', a_slot_id = ''SL1'', a_patient_name = ''Alice'', a_patient_phone = None,
            a_reason = None, a_status = ''Confirmed'', a_created_at = ''t1''\<rparr>]\<rparr>)
      ''SL1'' \<lparr>req_doctorId = Some ''D002'', req_date = Some ''2024-02-01'', req_time = Some ''11:00''\<rparr>
     = ((init ''2024-01-10'')\<lparr>db_appointments :=
          [\<lparr>a_id = ''a1'', a_slot_id = ''SL1'', a_patient_name = ''Alice'', a_patient_phone = None,
            a_reason = None, a_status = ''Confirmed'', a_created_at = ''t1''\<rparr>]\<rparr>,
        Error_json 409 ''Cannot edit slot with an existing appointment'')
   \<and> put_slots (\<lambda>d. d = ''2024-02-01'')
      ((init ''2024-01-10'')\<lparr>db_appointments :=
          [\<lparr>a_id = ''a1'', a_slot_id = ''SL1'', a_patient_name = ''Alice'', a_patient_phone = None,
            a_reason = None, a_status = ''Confirmed'', a_created_at = ''t1''\<rparr>]\<rparr>)
      ''SL1'' \<lparr>req_doctorId = None, req_date = None, req_time = Some ''23:59''\<rparr>
     = ((init ''2024-01-10'')\<lparr>db_appointments :=
          [\<lparr>a_id = ''a1'', a_slot_id = ''SL1'', a_patient_name = ''Alice'', a_patient_phone = None,
            a_reason = None, a_status = ''Confirmed'', a_created_at = ''t1''\<rparr>]\<rparr>,
        Error_json 409 ''Cannot edit slot with an existing appointment'')
   \<and> put_slots (\<lambda>d. d = ''2024-02-01'')
      ((init ''2024-01-10'')\<lparr>db_appointments :=
          [\<lparr>a_id = ''a1'', a_slot_id = ''SL1'', a_patient_name = ''Alice'', a_patient_phone = None,
            a_reason = None, a_status = ''Confirmed'', a_created_at = ''t1''\<rparr>]\<rparr>)
      ''SL1'' \<lparr>req_doctorId = None, req_date = None, req_time = None\<rparr>
     = ((init ''2024-01-10'')\<lparr>db_appointments :=
          [\<lparr>a_id = ''a1'', a_slot_id = ''SL1'', a_patient_name = ''Alice'', a_patient_phone = None,
            a_reason = None, a_status = ''Confirmed'', a_created_at = ''t1''\<rparr>]\<rparr>,
        Error_json 409 ''Cannot edit slot with an existing appointment'')"
proof -
  let ?db = "(init ''2024-01-10'')\<lparr>db_appointments :=
          [\<lparr>a_id = ''a1'', a_slot_id = ''SL1'', a_patient_name = ''Alice'', a_patient_phone = None,
            a_reason = None, a_status = ''Confirmed'', a_created_at = ''t1''\<rparr>]\<rparr>"
  let ?V = "\<lambda>d. d = ''2024-02-01''"
  have s: "''SL1'' \<in> set (map s_id (db_slots ?db))"
    and a: "''SL1'' \<in> set (map a_slot_id (db_appointments ?db))"
    by (simp_all add: init_def)
  note t = booked_slot_not_editable[OF s a, of ?V]
  show ?thesis
    using t[of "\<lparr>req_doctorId = Some ''D002'', req_date = Some ''2024-02-01'', req_time = Some ''11:00''\<rparr>"]
      t[of "\<lparr>req_doctorId = None, req_date = None, req_time = Some ''23:59''\<rparr>"]
      t[of "\<lparr>req_doctorId = None, req_date = None, req_time = None\<rparr>"]
    by (simp add: valid_slot_patch_def is_digit_def)
qed

section \<open>Updating a doctor\<close>

lemma nth_update_doctor:
  assumes "k < length (db_doctors db)"
  shows "db_doctors (update_doctor db i n sp ro) ! k =
           (if d_id (db_doctors db ! k) = i
            then (db_doctors db ! k)\<lparr>d_name := n, d_speciality := sp, d_room := ro\<rparr>
            else db_doctors db ! k)"
  using assms by (simp add: update_doctor_def)

text \<open>
  Claim C8. For a doctor id that is in the store, \<open>PUT /doctors/:id\<close> leaves the slots and
  the appointments as they were, keeps the id of every doctor row at its place, leaves every
  row with another id exactly as it was, and gives the row with this id the name, speciality
  and room of the answer: the value of the body where the body has the field, the row's
  own value where it has not.
\<close>

theorem update_doctor_touches_one_row:
  assumes "i \<in> set (map d_id (db_doctors db))"
  shows "db_slots (fst (put_doctors db i b)) = db_slots db
     \<and> db_appointments (fst (put_doctors db i b)) = db_appointments db
     \<and> map d_id (db_doctors (fst (put_doctors db i b))) = map d_id (db_doctors db)
     \<and> (\<forall>k<length (db_doctors db). d_id (db_doctors db ! k) \<noteq> i
           \<longrightarrow> db_doctors (fst (put_doctors db i b)) ! k = db_doctors db ! k)
     \<and> (\<exists>doc. find (\<lambda>d. d_id d = i) (db_doctors db) = Some doc
           \<and> snd (put_doctors db i b)
               = Doctor_json 200 i
                   (case req_name b of None \<Rightarrow> d_name doc | Some n \<Rightarrow> n)
                   (case req_speciality b of None \<Rightarrow> d_speciality doc | Some x \<Rightarrow> Some x)
                   (case req_room b of None \<Rightarrow> d_room doc | Some x \<Rightarrow> Some x)
           \<and> (\<forall>k<length (db_doctors db). d_id (db_doctors db ! k) = i
                 \<longrightarrow> db_doctors (fst (put_doctors db i b)) ! k
                     = (db_doctors db ! k)
                         \<lparr>d_name := (case req_name b of None \<Rightarrow> d_name doc | Some n \<Rightarrow> n),
                          d_speciality := (case req_speciality b of None \<Rightarrow> d_speciality doc | Some x \<Rightarrow> Some x),
                          d_room := (case req_room b of None \<Rightarrow> d_room doc | Some x \<Rightarrow> Some x)\<rparr>))"
proof -
  from find_Some_ids[OF assms] obtain doc where f: "find (\<lambda>d. d_id d = i) (db_doctors db) = Some doc" ..
  let ?n = "case req_name b of None \<Rightarrow> d_name doc | Some n \<Rightarrow> n"
  let ?sp = "case req_speciality b of None \<Rightarrow> d_speciality doc | Some x \<Rightarrow> Some x"
  let ?ro = "case req_room b of None \<Rightarrow> d_room doc | Some x \<Rightarrow> Some x"
  have p: "put_doctors db i b = (update_doctor db i ?n ?sp ?ro, Doctor_json 200 i ?n ?sp ?ro)"
    using f by (simp add: put_doctors_def Let_def)
  show ?thesis
    unfolding p fst_conv snd_conv
    using f by (simp add: update_doctor_frame nth_update_doctor)
qed

theorem update_doctor_touches_one_row_witness:
  "put_doctors (init ''2024-01-10'') ''D001''
      \<lparr>req_id = None, req_name = None, req_speciality = None, req_room = Some ''102''\<rparr>
     = ((init ''2024-01-10'')\<lparr>db_doctors :=
          [\<lparr>d_id = ''D001'', d_name = ''Dr. Asha Mehta'', d_speciality = Some ''General Physician'',
            d_room = Some ''102''\<rparr>,
           \<lparr>d_id = ''D002'', d_name = ''Dr. Rajesh Singh'', d_speciality = Some ''Cardiologist'',
            d_room = Some ''201''\<rparr>]\<rparr>,
        Doctor_json 200 ''D001'' ''Dr. Asha Mehta'' (Some ''General Physician'') (Some ''102''))
   \<and> db_slots (fst (put_doctors (init ''2024-01-10'') ''D001''
      \<lparr>req_id = None, req_name = None, req_speciality = None, req_room = Some ''102''\<rparr>))
       = db_slots (init ''2024-01-10'')
   \<and> db_appointments (fst (put_doctors (init ''2024-01-10'') ''D001''
      \<lparr>req_id = None, req_name = None, req_speciality = None, req_room = Some ''102''\<rparr>))
       = db_appointments (init ''2024-01-10'')"
proof -
  let ?b = "\<lparr>req_id = None, req_name = None, req_speciality = None, req_room = Some ''102''\<rparr>"
  have h: "''D001'' \<in> set (map d_id (db_doctors (init ''2024-01-10'')))"
    by (simp add: init_def)
  note t = update_doctor_touches_one_row[OF h, of ?b]
  have e: "put_doctors (init ''2024-01-10'') ''D001'' ?b
     = ((init ''2024-01-10'')\<lparr>db_doctors :=
          [\<lparr>d_id = ''D001'', d_name = ''Dr. Asha Mehta'', d_speciality = Some ''General Physician'',
            d_room = Some ''102''\<rparr>,
           \<lparr>d_id = ''D002'', d_name = ''Dr. Rajesh Singh'', d_speciality = Some ''Cardiologist'',
            d_room = Some ''201''\<rparr>]\<rparr>,
        Doctor_json 200 ''D001'' ''Dr. Asha Mehta'' (Some ''General Physician'') (Some ''102''))"
    by (simp add: put_doctors_def update_doctor_def init_def Let_def)
  from t have "db_slots (fst (put_doctors (init ''2024-01-10'') ''D001'' ?b)) = db_slots (init ''2024-01-10'')"
    and "db_appointments (fst (put_doctors (init ''2024-01-10'') ''D001'' ?b)) = db_appointments (init ''2024-01-10'')"
    by (rule conjunct1, rule conjunct2[THEN conjunct1])
  with e show ?thesis by (intro conjI)
qed

section \<open>Deleting a doctor\<close>

lemma length_filter_ids:
  assumes "distinct (map f xs)"
  shows "length (filter (\<lambda>x. f x \<in> B) xs) = card (set (map f xs) \<inter> B)"
proof -
  have "distinct (map f (filter (\<lambda>x. f x \<in> B) xs))"
    using assms by (rule distinct_map_filter)
  then have "card (set (map f (filter (\<lambda>x. f x \<in> B) xs))) = length (map f (filter (\<lambda>x. f x \<in> B) xs))"
    by (rule distinct_card)
  moreover have "set (map f (filter (\<lambda>x. f x \<in> B) xs)) = set (map f xs) \<inter> B"
    by auto
  ultimately show ?thesis by simp
qed

lemma booked_slots_count:
  assumes "distinct (map s_id ss)" and "distinct (map a_slot_id as)"
  shows "length (filter (\<lambda>a. a_slot_id a \<in> set (map s_id (filter P ss))) as)
       = length (filter (\<lambda>s. P s \<and> s_id s \<in> set (map a_slot_id as)) ss)"
proof -
  let ?G = "set (map s_id (filter P ss))" and ?A = "set (map a_slot_id as)"
  have "length (filter (\<lambda>a. a_slot_id a \<in> ?G) as) = card (?A \<inter> ?G)"
    using assms(2) by (rule length_filter_ids)
  moreover have "distinct (map s_id (filter P ss))"
    using assms(1) by (rule distinct_map_filter)
  then have "length (filter (\<lambda>s. s_id s \<in> ?A) (filter P ss)) = card (?G \<inter> ?A)"
    by (rule length_filter_ids)
  moreover have "filter (\<lambda>s. s_id s \<in> ?A) (filter P ss) = filter (\<lambda>s. P s \<and> s_id s \<in> ?A) ss"
    by (simp add: conj_commute)
  ultimately show ?thesis by (simp add: Int_commute)
qed

lemma length_filter_split:
  "length xs = length (filter (\<lambda>x. \<not> P x) xs) + length (filter P xs)"
  using sum_length_filter_compl[of P xs] by simp

lemma delete_doctor_present:
  assumes "i \<in> set (map d_id (db_doctors db))"
  shows "delete_doctor db i =
           \<lparr>db_doctors = filter (\<lambda>d. d_id d \<noteq> i) (db_doctors db),
            db_slots = filter (\<lambda>s. s_doctor_id s \<noteq> i) (db_slots db),
            db_appointments =
              filter (\<lambda>a. a_slot_id a \<notin> set (map s_id (filter (\<lambda>s. s_doctor_id s = i) (db_slots db))))
                (db_appointments db)\<rparr>"
  using assms by (simp add: delete_doctor_def delete_slots_where_def)

lemma demo_kept_appointment:
  assumes "distinct (map sId ss)" and "x \<in> set (map sId ss)"
  shows "find (\<lambda>s. sId s = x) (filter (\<lambda>s. sDoctorId s \<noteq> d) ss) \<noteq> None
       \<longleftrightarrow> x \<notin> set (map sId (filter (\<lambda>s. sDoctorId s = d) ss))"
proof -
  from assms(2) obtain s where s: "s \<in> set ss" "sId s = x" by auto
  have u: "t = s" if "t \<in> set ss" "sId t = x" for t
    using assms(1) s that by (auto simp: distinct_map inj_on_def)
  show ?thesis
  proof (cases "sDoctorId s = d")
    case True
    then have "x \<in> set (map sId (filter (\<lambda>s. sDoctorId s = d) ss))" using s by force
    moreover have "find (\<lambda>s. sId s = x) (filter (\<lambda>s. sDoctorId s \<noteq> d) ss) = None"
      using True u by (auto simp: find_None_iff)
    ultimately show ?thesis by simp
  next
    case False
    then have "x \<notin> set (map sId (filter (\<lambda>s. sDoctorId s = d) ss))" using u by auto
    moreover have "find (\<lambda>s. sId s = x) (filter (\<lambda>s. sDoctorId s \<noteq> d) ss) \<noteq> None"
      using False s by (auto simp: find_None_iff)
    ultimately show ?thesis by simp
  qed
qed

text \<open>
  Claim C4. On the server, in a store that satisfies the schema, deleting a doctor that
  exists answers \<open>204\<close> and leaves exactly this store: the doctors without the row of that
  id, the slots without the \<open>k\<close> slots of that doctor, and the appointments without those
  that reference one of these slots, which are as many as the \<open>m\<close> slots of the doctor
  that are booked. Every other row is as it was, and the schema still holds, so no slot is
  left without its doctor and no appointment without its slot. The handler is the single
  \<open>DELETE\<close> statement, so this store is the only one that follows the request. In the
  browser demo, where slot ids are distinct and every appointment references a slot,
  \<open>deleteDoctor\<close> (once confirmed) leaves the same three collections.
\<close>

theorem delete_doctor_cascade:
  "(constraints db \<and> i \<in> set (map d_id (db_doctors db))
      \<longrightarrow> delete_doctors db i =
            (\<lparr>db_doctors = filter (\<lambda>d. d_id d \<noteq> i) (db_doctors db),
              db_slots = filter (\<lambda>s. s_doctor_id s \<noteq> i) (db_slots db),
              db_appointments =
                filter (\<lambda>a. a_slot_id a \<notin> set (map s_id (filter (\<lambda>s. s_doctor_id s = i) (db_slots db))))
                  (db_appointments db)\<rparr>, No_content)
        \<and> length (db_slots db)
            = length (db_slots (fst (delete_doctors db i)))
              + length (filter (\<lambda>s. s_doctor_id s = i) (db_slots db))
        \<and> length (db_appointments db)
            = length (db_appointments (fst (delete_doctors db i)))
              + length (filter (\<lambda>s. s_doctor_id s = i \<and> s_id s \<in> set (map a_slot_id (db_appointments db)))
                  (db_slots db))
        \<and> constraints (fst (delete_doctors db i)))
   \<and> (distinct (map sId (state_slots st))
        \<and> set (map aSlotId (state_appointments st)) \<subseteq> set (map sId (state_slots st))
      \<longrightarrow> deleteDoctor st True d =
            \<lparr>state_doctors = filter (\<lambda>x. dId x \<noteq> d) (state_doctors st),
             state_slots = filter (\<lambda>s. sDoctorId s \<noteq> d) (state_slots st),
             state_appointments =
               filter (\<lambda>a. aSlotId a \<notin> set (map sId (filter (\<lambda>s. sDoctorId s = d) (state_slots st))))
                 (state_appointments st)\<rparr>)"
proof (intro conjI impI)
  assume a: "constraints db \<and> i \<in> set (map d_id (db_doctors db))"
  then have c: "constraints db" and i: "i \<in> set (map d_id (db_doctors db))" by simp_all
  from c have ds: "distinct (map s_id (db_slots db))"
    and da: "distinct (map a_slot_id (db_appointments db))"
    by (simp_all add: constraints_def)
  let ?gone = "set (map s_id (filter (\<lambda>s. s_doctor_id s = i) (db_slots db)))"
  show e: "delete_doctors db i =
            (\<lparr>db_doctors = filter (\<lambda>d. d_id d \<noteq> i) (db_doctors db),
              db_slots = filter (\<lambda>s. s_doctor_id s \<noteq> i) (db_slots db),
              db_appointments = filter (\<lambda>a. a_slot_id a \<notin> ?gone) (db_appointments db)\<rparr>, No_content)"
    by (simp add: delete_doctors_def delete_doctor_present[OF i])
  show "length (db_slots db)
            = length (db_slots (fst (delete_doctors db i)))
              + length (filter (\<lambda>s. s_doctor_id s = i) (db_slots db))"
    unfolding e using length_filter_split[of "db_slots db" "\<lambda>s. s_doctor_id s = i"] by simp
  have "length (db_appointments db)
          = length (filter (\<lambda>a. a_slot_id a \<notin> ?gone) (db_appointments db))
            + length (filter (\<lambda>a. a_slot_id a \<in> ?gone) (db_appointments db))"
    using length_filter_split[of "db_appointments db" "\<lambda>a. a_slot_id a \<in> ?gone"] by simp
  then show "length (db_appointments db)
            = length (db_appointments (fst (delete_doctors db i)))
              + length (filter (\<lambda>s. s_doctor_id s = i \<and> s_id s \<in> set (map a_slot_id (db_appointments db)))
                  (db_slots db))"
    unfolding e using booked_slots_count[OF ds da, of "\<lambda>s. s_doctor_id s = i"] by simp
  show "constraints (fst (delete_doctors db i))"
    using c by (simp add: delete_doctors_def constraints_delete_doctor)
next
  assume a: "distinct (map sId (state_slots st))
        \<and> set (map aSlotId (state_appointments st)) \<subseteq> set (map sId (state_slots st))"
  have "filter (\<lambda>a. find (\<lambda>s. sId s = aSlotId a) (filter (\<lambda>s. sDoctorId s \<noteq> d) (state_slots st)) \<noteq> None)
          (state_appointments st)
      = filter (\<lambda>a. aSlotId a \<notin> set (map sId (filter (\<lambda>s. sDoctorId s = d) (state_slots st))))
          (state_appointments st)"
  proof (rule filter_cong[OF refl])
    fix x assume "x \<in> set (state_appointments st)"
    with a have "aSlotId x \<in> set (map sId (state_slots st))" by auto
    with a show "(find (\<lambda>s. sId s = aSlotId x) (filter (\<lambda>s. sDoctorId s \<noteq> d) (state_slots st)) \<noteq> None)
        = (aSlotId x \<notin> set (map sId (filter (\<lambda>s. sDoctorId s = d) (state_slots st))))"
      by (intro demo_kept_appointment) simp_all
  qed
  then show "deleteDoctor st True d =
            \<lparr>state_doctors = filter (\<lambda>x. dId x \<noteq> d) (state_doctors st),
             state_slots = filter (\<lambda>s. sDoctorId s \<noteq> d) (state_slots st),
             state_appointments =
               filter (\<lambda>a. aSlotId a \<notin> set (map sId (filter (\<lambda>s. sDoctorId s = d) (state_slots st))))
                 (state_appointments st)\<rparr>"
    by (simp add: deleteDoctor_def Let_def)
qed

theorem delete_doctor_cascade_witness:
  "delete_doctors
      ((init ''2024-01-10'')\<lparr>db_appointments :=
          [\<lparr>a_id = ''a1'', a_slot_id = ''SL1'', a_patient_name = ''Alice'', a_patient_phone = None,
            a_reason = None, a_status = ''Confirmed'', a_created_at = ''t1''\<rparr>,
           \<lparr>a_id = ''a2'', a_slot_id = ''SL3'', a_patient_name = ''Bob'', a_patient_phone = None,
            a_reason = None, a_status = ''Confirmed'', a_created_at = ''t2''\<rparr>]\<rparr>) ''D001''
     = (\<lparr>db_doctors =
          [\<lparr>d_id = ''D002'', d_name = ''Dr. Rajesh Singh'', d_speciality = Some ''Cardiologist'',
            d_room = Some ''201''\<rparr>],
         db_slots =
          [\<lparr>s_id = ''SL3'', s_doctor_id = ''D002'', s_date = ''2024-01-10'', s_time = ''10:00''\<rparr>],
         db_appointments =
          [\<lparr>a_id = ''a2'', a_slot_id = ''SL3'', a_patient_name = ''Bob'', a_patient_phone = None,
            a_reason = None, a_status = ''Confirmed'', a_created_at = ''t2''\<rparr>]\<rparr>, No_content)
   \<and> deleteDoctor
      ((defaultState ''2024-01-10'')\<lparr>state_appointments :=
          [\<lparr>aId = ''AP1'', aSlotId = ''S1'', aPatientName = ''Alice'', aPatientPhone = '''',
            aReason = '''', aStatus = ''Confirmed'', aCreatedAt = ''t1''\<rparr>,
           \<lparr>aId = ''AP2'', aSlotId = ''S3'', aPatientName = ''Bob'', aPatientPhone = '''',
            aReason = '''', aStatus = ''Confirmed'', aCreatedAt = ''t2''\<rparr>]\<rparr>) True ''D001''
     = \<lparr>state_doctors =
          [\<lparr>dId = ''D002'', dName = ''Dr. Rajesh Singh'', dSpeciality = ''Cardiologist'',
            dRoom = ''201''\<rparr>],
        state_slots =
          [\<lparr>sId = ''S3'', sDoctorId = ''D002'', sDate = ''2024-01-10'', sTime = ''10:00''\<rparr>],
        state_appointments =
          [\<lparr>aId = ''AP2'', aSlotId = ''S3'', aPatientName = ''Bob'', aPatientPhone = '''',
            aReason = '''', aStatus = ''Confirmed'', aCreatedAt = ''t2''\<rparr>]\<rparr>"
proof -
  let ?db = "(init ''2024-01-10'')\<lparr>db_appointments :=
          [\<lparr>a_id = ''a1'', a_slot_id = ''SL1'', a_patient_name = ''Alice'', a_patient_phone = None,
            a_reason = None, a_status = ''Confirmed'', a_created_at = ''t1''\<rparr>,
           \<lparr>a_id = ''a2'', a_slot_id = ''SL3'', a_patient_name = ''Bob'', a_patient_phone = None,
            a_reason = None, a_status = ''Confirmed'', a_created_at = ''t2''\<rparr>]\<rparr>"
  let ?st = "(defaultState ''2024-01-10'')\<lparr>state_appointments :=
          [\<lparr>aId = ''AP1'', aSlotId = ''S1'', aPatientName = ''Alice'', aPatientPhone = '''',
            aReason = '''', aStatus = ''Confirmed'', aCreatedAt = ''t1''\<rparr>,
           \<lparr>aId = ''AP2'', aSlotId = ''S3'', aPatientName = ''Bob'', aPatientPhone = '''',
            aReason = '''', aStatus = ''Confirmed'', aCreatedAt = ''t2''\<rparr>]\<rparr>"
  have h1: "constraints ?db \<and> ''D001'' \<in> set (map d_id (db_doctors ?db))"
    by (simp add: constraints_def init_def)
  have h2: "distinct (map sId (state_slots ?st))
        \<and> set (map aSlotId (state_appointments ?st)) \<subseteq> set (map sId (state_slots ?st))"
    by (simp add: defaultState_def)
  note t = delete_doctor_cascade[of ?db "''D001''" ?st "''D001''"]
  from t[THEN conjunct1, THEN mp, OF h1, THEN conjunct1] t[THEN conjunct2, THEN mp, OF h2]
  show ?thesis
    by (simp add: init_def defaultState_def)
qed

section \<open>The browser demo used by one person\<close>

lemma isSlotBooked_iff:
  "isSlotBooked st i \<longleftrightarrow> i \<in> set (map aSlotId (state_appointments st))"
  by (auto simp: isSlotBooked_def list_ex_iff)

lemma saveDoctor_appointments:
  "state_appointments (fst (saveDoctor st editing i n sp ro)) = state_appointments st"
  by (auto simp: saveDoctor_def Let_def split: option.splits)

lemma saveSlot_appointments:
  "state_appointments (fst (saveSlot st e di d da ti)) = state_appointments st"
  by (auto simp: saveSlot_def split: option.splits)

lemma confirmAppointment_appointments:
  "state_appointments (fst (confirmAppointment st e sl n ph re)) = state_appointments st
   \<or> (sl \<noteq> [] \<and> sl \<notin> set (map aSlotId (state_appointments st))
      \<and> (\<exists>a. aSlotId a = sl
            \<and> state_appointments (fst (confirmAppointment st e sl n ph re)) = state_appointments st @ [a]))"
  by (simp add: confirmAppointment_def isSlotBooked_iff)

lemma demo_unique_click:
  assumes "distinct (map aSlotId (state_appointments st))"
  shows "distinct (map aSlotId (state_appointments (click st e c)))"
proof (cases c)
  case (Save_doctor editing i n sp ro)
  with assms show ?thesis by (simp add: saveDoctor_appointments)
next
  case (Delete_doctor k i)
  with assms show ?thesis by (simp add: deleteDoctor_def Let_def distinct_map_filter)
next
  case (Save_slot di d da ti)
  with assms show ?thesis by (simp add: saveSlot_appointments)
next
  case (Confirm_appointment sl n ph re)
  from confirmAppointment_appointments[of st e sl n ph re] assms
  have "distinct (map aSlotId (state_appointments (fst (confirmAppointment st e sl n ph re))))"
    by auto
  with Confirm_appointment show ?thesis by simp
next
  case (Cancel_appointment k i)
  with assms show ?thesis by (simp add: cancelAppointment_def distinct_map_filter)
qed

lemma demo_reachable_unique:
  "demo_reachable st \<Longrightarrow> distinct (map aSlotId (state_appointments st))"
  by (induction rule: demo_reachable.induct) (simp_all add: defaultState_def demo_unique_click)



lemma deleteDoctor_confirmed:
  "deleteDoctor st True d =
     \<lparr>state_doctors = filter (\<lambda>x. dId x \<noteq> d) (state_doctors st),
      state_slots = filter (\<lambda>s. sDoctorId s \<noteq> d) (state_slots st),
      state_appointments =
        filter (\<lambda>a. find (\<lambda>s. sId s = aSlotId a) (filter (\<lambda>s. sDoctorId s \<noteq> d) (state_slots st)) \<noteq> None)
          (state_appointments st)\<rparr>"
  by (simp add: deleteDoctor_def Let_def)

lemma deleteDoctor_no_slot: "d \<notin> set (map sDoctorId (state_slots (deleteDoctor st True d)))"
  by (auto simp: deleteDoctor_confirmed)

lemma deleteDoctor_no_orphan:
  "set (map aSlotId (state_appointments (deleteDoctor st True d)))
     \<subseteq> set (map sId (state_slots (deleteDoctor st True d)))"
proof
  fix i assume "i \<in> set (map aSlotId (state_appointments (deleteDoctor st True d)))"
  then have "find (\<lambda>s. sId s = i) (filter (\<lambda>s. sDoctorId s \<noteq> d) (state_slots st)) \<noteq> None"
    by (auto simp: deleteDoctor_confirmed)
  then have "i \<in> set (map sId (filter (\<lambda>s. sDoctorId s \<noteq> d) (state_slots st)))"
    using find_None_ids[of sId i "filter (\<lambda>s. sDoctorId s \<noteq> d) (state_slots st)"] by auto
  then show "i \<in> set (map sId (state_slots (deleteDoctor st True d)))"
    by (simp add: deleteDoctor_confirmed)
qed

lemma deleteDoctor_detached:
  assumes "distinct (map sId (state_slots st))"
  shows "set (map aSlotId (state_appointments (deleteDoctor st True d)))
          \<inter> set (map sId (filter (\<lambda>s. sDoctorId s = d) (state_slots st))) = {}"
proof -
  have "i \<notin> set (map sId (filter (\<lambda>s. sDoctorId s = d) (state_slots st)))"
    if "i \<in> set (map sId (filter (\<lambda>s. sDoctorId s \<noteq> d) (state_slots st)))" for i
  proof
    assume "i \<in> set (map sId (filter (\<lambda>s. sDoctorId s = d) (state_slots st)))"
    then obtain s where s: "s \<in> set (state_slots st)" "sDoctorId s = d" "sId s = i" by auto
    from that obtain t where t: "t \<in> set (state_slots st)" "sDoctorId t \<noteq> d" "sId t = i" by auto
    from assms s(1,3) t(1,3) have "s = t" by (auto simp: distinct_map inj_on_def)
    with s(2) t(2) show False by simp
  qed
  with deleteDoctor_no_orphan[of st d] show ?thesis
    by (auto simp: deleteDoctor_confirmed)
qed

lemma assign_first_ids:
  assumes "assign_first p f xs = Some ys" and "\<And>x. g (f x) = g x"
  shows "map g ys = map g xs"
  using assms(1)
proof (induction xs arbitrary: ys)
  case Nil
  then show ?case by simp
next
  case (Cons x xs)
  show ?case
  proof (cases "p x")
    case True
    with Cons.prems have "ys = f x # xs" by simp
    then show ?thesis by (simp add: assms(2))
  next
    case False
    with Cons.prems obtain zs where z: "assign_first p f xs = Some zs" "ys = x # zs"
      by (cases "assign_first p f xs") auto
    from Cons.IH[OF z(1)] z(2) show ?thesis by simp
  qed
qed

lemma saveDoctor_slots:
  "state_slots (fst (saveDoctor st editing i n sp ro)) = state_slots st"
  by (auto simp: saveDoctor_def Let_def split: option.splits)

lemma confirmAppointment_slots:
  "state_slots (fst (confirmAppointment st e sl n ph re)) = state_slots st"
  by (simp add: confirmAppointment_def)

lemma saveSlot_slot_ids:
  "map sId (state_slots (fst (saveSlot st e di d da ti))) = map sId (state_slots st)
   \<or> map sId (state_slots (fst (saveSlot st e di d da ti))) = map sId (state_slots st) @ [uid e ''SL'']"
proof (cases "assign_first (\<lambda>x. sId x = or_else di [])
                (\<lambda>x. x\<lparr>sDoctorId := d, sDate := da, sTime := ti\<rparr>) (state_slots st)")
  case None
  then show ?thesis by (simp add: saveSlot_def)
next
  case (Some ss)
  from assign_first_ids[OF Some, of sId] have "map sId ss = map sId (state_slots st)" by simp
  with Some show ?thesis by (simp add: saveSlot_def)
qed

lemma demo_slot_ids_click:
  assumes "distinct (map sId (state_slots st))"
    and "uid e ''SL'' \<notin> set (map sId (state_slots st))"
  shows "distinct (map sId (state_slots (click st e c)))"
proof (cases c)
  case (Save_doctor editing i n sp ro)
  with assms show ?thesis by (simp add: saveDoctor_slots)
next
  case (Delete_doctor k i)
  with assms show ?thesis by (simp add: deleteDoctor_def Let_def distinct_map_filter)
next
  case (Save_slot di d da ti)
  from saveSlot_slot_ids[of st e di d da ti] assms
  have "distinct (map sId (state_slots (fst (saveSlot st e di d da ti))))"
    by (elim disjE) simp_all
  with Save_slot show ?thesis by simp
next
  case (Confirm_appointment sl n ph re)
  with assms show ?thesis by (simp add: confirmAppointment_slots)
next
  case (Cancel_appointment k i)
  with assms show ?thesis by (simp add: cancelAppointment_def)
qed

lemma demo_slot_ids_default: "distinct (map sId (state_slots (defaultState today)))"
  by (simp add: defaultState_def)

text \<open>
  Claim C9. In the browser demo, from \<open>defaultState\<close> and through any sequence of its five
  actions, no two appointments share a slot id, and each action keeps it so from any state
  where it holds. \<open>isSlotBooked\<close> says exactly whether an appointment has the slot id, and
  for a slot that is booked the Confirm Appointment handler leaves the state as it was and
  confirms nothing. After \<open>deleteDoctor\<close> (once confirmed), from any state, no slot of that
  doctor is left, and every appointment that is left references a slot that is left, so none
  is left on a slot of that doctor alone; where slot ids are distinct, no appointment that
  is left has the id of a deleted slot. Slot ids are distinct in \<open>defaultState\<close> and stay
  distinct through every action whose generated id is not yet the id of a slot.
\<close>

theorem demo_single_writer:
  "(demo_reachable st \<longrightarrow> distinct (map aSlotId (state_appointments st)))
   \<and> (distinct (map aSlotId (state_appointments st))
        \<longrightarrow> distinct (map aSlotId (state_appointments (click st e c))))
   \<and> isSlotBooked st slotId = (slotId \<in> set (map aSlotId (state_appointments st)))
   \<and> (isSlotBooked st slotId
        \<longrightarrow> fst (confirmAppointment st e slotId n ph re) = st
          \<and> snd (confirmAppointment st e slotId n ph re) \<noteq> Alert_appointment_confirmed)
   \<and> d \<notin> set (map sDoctorId (state_slots (deleteDoctor st True d)))
   \<and> set (map aSlotId (state_appointments (deleteDoctor st True d)))
        \<subseteq> set (map sId (state_slots (deleteDoctor st True d)))
   \<and> (distinct (map sId (state_slots st))
        \<longrightarrow> set (map aSlotId (state_appointments (deleteDoctor st True d)))
            \<inter> set (map sId (filter (\<lambda>s. sDoctorId s = d) (state_slots st))) = {})
   \<and> distinct (map sId (state_slots (defaultState today)))
   \<and> (distinct (map sId (state_slots st)) \<and> uid e ''SL'' \<notin> set (map sId (state_slots st))
        \<longrightarrow> distinct (map sId (state_slots (click st e c))))"
proof (intro conjI impI)
  assume "demo_reachable st"
  then show "distinct (map aSlotId (state_appointments st))" by (rule demo_reachable_unique)
next
  assume "distinct (map aSlotId (state_appointments st))"
  then show "distinct (map aSlotId (state_appointments (click st e c)))" by (rule demo_unique_click)
next
  show "isSlotBooked st slotId = (slotId \<in> set (map aSlotId (state_appointments st)))"
    by (rule isSlotBooked_iff)
next
  assume b: "isSlotBooked st slotId"
  then show "fst (confirmAppointment st e slotId n ph re) = st"
    by (simp add: confirmAppointment_def)
  from b show "snd (confirmAppointment st e slotId n ph re) \<noteq> Alert_appointment_confirmed"
    by (simp add: confirmAppointment_def)
next
  show "d \<notin> set (map sDoctorId (state_slots (deleteDoctor st True d)))"
    by (rule deleteDoctor_no_slot)
next
  show "set (map aSlotId (state_appointments (deleteDoctor st True d)))
        \<subseteq> set (map sId (state_slots (deleteDoctor st True d)))"
    by (rule deleteDoctor_no_orphan)
next
  assume "distinct (map sId (state_slots st))"
  then show "set (map aSlotId (state_appointments (deleteDoctor st True d)))
            \<inter> set (map sId (filter (\<lambda>s. sDoctorId s = d) (state_slots st))) = {}"
    by (rule deleteDoctor_detached)
next
  show "distinct (map sId (state_slots (defaultState today)))"
    by (rule demo_slot_ids_default)
next
  assume "distinct (map sId (state_slots st)) \<and> uid e ''SL'' \<notin> set (map sId (state_slots st))"
  then show "distinct (map sId (state_slots (click st e c)))"
    by (simp add: demo_slot_ids_click)
qed

theorem demo_single_writer_witness:
  "demo_reachable
      (click (defaultState ''2024-01-10'') \<lparr>random36 = ''k3j9x0a'', clock = ''t1''\<rparr>
         (Confirm_appointment ''S1'' ''Alice'' '''' ''''))
   \<and> distinct (map aSlotId (state_appointments
      (click (defaultState ''2024-01-10'') \<lparr>random36 = ''k3j9x0a'', clock = ''t1''\<rparr>
         (Confirm_appointment ''S1'' ''Alice'' '''' ''''))))
   \<and> isSlotBooked
      (click (defaultState ''2024-01-10'') \<lparr>random36 = ''k3j9x0a'', clock = ''t1''\<rparr>
         (Confirm_appointment ''S1'' ''Alice'' '''' '''')) ''S1''
   \<and> fst (confirmAppointment
      (click (defaultState ''2024-01-10'') \<lparr>random36 = ''k3j9x0a'', clock = ''t1''\<rparr>
         (Confirm_appointment ''S1'' ''Alice'' '''' ''''))
      \<lparr>random36 = ''zz81q2m'', clock = ''t2''\<rparr> ''S1'' ''Bob'' '''' '''')
     = click (defaultState ''2024-01-10'') \<lparr>random36 = ''k3j9x0a'', clock = ''t1''\<rparr>
         (Confirm_appointment ''S1'' ''Alice'' '''' '''')
   \<and> snd (confirmAppointment
      (click (defaultState ''2024-01-10'') \<lparr>random36 = ''k3j9x0a'', clock = ''t1''\<rparr>
         (Confirm_appointment ''S1'' ''Alice'' '''' ''''))
      \<lparr>random36 = ''zz81q2m'', clock = ''t2''\<rparr> ''S1'' ''Bob'' '''' '''')
     \<noteq> Alert_appointment_confirmed
   \<and> distinct (map sId (state_slots
      (click (defaultState ''2024-01-10'') \<lparr>random36 = ''k3j9x0a'', clock = ''t1''\<rparr>
         (Confirm_appointment ''S1'' ''Alice'' '''' ''''))))
   \<and> set (map aSlotId (state_appointments (deleteDoctor
      (click (defaultState ''2024-01-10'') \<lparr>random36 = ''k3j9x0a'', clock = ''t1''\<rparr>
         (Confirm_appointment ''S1'' ''Alice'' '''' '''')) True ''D001'')))
        \<inter> set (map sId (filter (\<lambda>s. sDoctorId s = ''D001'') (state_slots
      (click (defaultState ''2024-01-10'') \<lparr>random36 = ''k3j9x0a'', clock = ''t1''\<rparr>
         (Confirm_appointment ''S1'' ''Alice'' '''' ''''))))) = {}"
proof -
  let ?st = "click (defaultState ''2024-01-10'') \<lparr>random36 = ''k3j9x0a'', clock = ''t1''\<rparr>
         (Confirm_appointment ''S1'' ''Alice'' '''' '''')"
  let ?e = "\<lparr>random36 = ''zz81q2m'', clock = ''t2''\<rparr>"
  have r: "demo_reachable ?st"
    by (rule demo_reachable.clicked, rule demo_reachable.loaded)
  have st: "state_appointments ?st =
      [\<lparr>aId = ''APk3j9x0a'', aSlotId = ''S1'', aPatientName = ''Alice'', aPatientPhone = '''',
        aReason = '''', aStatus = ''Confirmed'', aCreatedAt = ''t1''\<rparr>]"
    and sl: "state_slots ?st = state_slots (defaultState ''2024-01-10'')"
    by (simp_all add: confirmAppointment_def isSlotBooked_def defaultState_def trim_def
        is_space_def uid_def)
  have ds: "distinct (map sId (state_slots ?st))"
    unfolding sl by (simp add: defaultState_def)
  note t = demo_single_writer[of ?st ?e "Cancel_appointment True ''x''" "''S1''" "''Bob''" "''''" "''''" "''D001''"]
  have u: "distinct (map aSlotId (state_appointments ?st))"
    by (rule t[THEN conjunct1, THEN mp, OF r])
  have b: "isSlotBooked ?st ''S1''"
    unfolding t[THEN conjunct2, THEN conjunct2, THEN conjunct1] st by simp
  note k = t[THEN conjunct2, THEN conjunct2, THEN conjunct2, THEN conjunct1, THEN mp, OF b]
  note c = t[THEN conjunct2, THEN conjunct2, THEN conjunct2, THEN conjunct2, THEN conjunct2,
      THEN conjunct2, THEN conjunct1, THEN mp, OF ds]
  show ?thesis
    by (intro conjI) (rule r u b ds c k[THEN conjunct1] k[THEN conjunct2])+
qed

section \<open>Cancelling and booking again\<close>



lemma ids_after_removal:
  "i \<notin> set (map f xs) \<Longrightarrow> i \<notin> set (map f (filter P xs))"
  by auto



section \<open>Calls that race for one slot\<close>


lemma advance_twice_is_handler:
  "(case advance db (e, b, Arrived) of (db1, c1) \<Rightarrow>
      (case advance db1 c1 of (db2, c2) \<Rightarrow>
         db1 = db \<and> (db2, reply_of c2) = (fst (post_appointments db e b), Some (snd (post_appointments db e b)))))"
  by (cases "check_booking db e b"; cases "try_insert db (projr (check_booking db e b))")
     (simp_all add: post_appointments_def reply_of_def)





















lemma won_and_lost_differ:
  "\<not> (reply_of c = Some (Appointment_json 201 (Some w))
      \<and> reply_of c = Some (Error_json 409 ''Slot already booked''))"
  by auto



end
